theory Spec2Isabelle
  imports Complex_Main "HOL-Library.Finite_Map"
begin

section \<open>Numbers\<close>

text \<open>
  Python floats are modelled as exact reals: prices, balances and P&L are \<^typ>\<open>real\<close>,
  so the results below are about the arithmetic the code writes down, not about binary
  rounding error. Contract counts, trade ids and bar indices are Python ints,
  modelled as \<^typ>\<open>int\<close>.
\<close>

definition MNQ_POINT_VALUE :: real where
  "MNQ_POINT_VALUE = 2"

text \<open>\<^verbatim>\<open>int(x)\<close> on a float truncates towards zero.\<close>

definition py_int :: "real \<Rightarrow> int" where
  "py_int x = (if 0 \<le> x then \<lfloor>x\<rfloor> else \<lceil>x\<rceil>)"

text \<open>\<^verbatim>\<open>round(x)\<close> rounds to the nearest integer, a tie going to the even neighbour.\<close>

definition py_round :: "real \<Rightarrow> int" where
  "py_round x =
     (let f = \<lfloor>x\<rfloor>; d = x - of_int f
      in if d < 1 / 2 then f
         else if 1 / 2 < d then f + 1
         else if even f then f else f + 1)"

text \<open>\<^verbatim>\<open>round(x, 2)\<close>: the nearest multiple of 0.01.\<close>

definition round2 :: "real \<Rightarrow> real" where
  "round2 x = of_int (py_round (x * 100)) / 100"

section \<open>Configuration (utils/config.py)\<close>

text \<open>
  The fields of \<^verbatim>\<open>StrategyConfig\<close> that the risk manager and the backtester read.
\<close>

record StrategyConfig =
  account_size :: real
  risk_per_trade_pct :: real
  max_daily_loss_pct :: real
  trend_ema_period :: int
  trailing_stop_pct :: real
  max_trades_per_session :: int
  strategy_mode :: string
  slippage_pct :: real
  commission_per_contract :: real

section \<open>Risk manager (engines/risk\_manager.py)\<close>

text \<open>
  An entry of \<^verbatim>\<open>open_positions\<close>. The \<^verbatim>\<open>entry_time\<close> key holds the wall clock
  and is never read, so it is left out.
\<close>

record Position =
  direction :: string
  entry_price :: real
  stop_loss :: real
  take_profit :: real
  quantity :: int
  highest_price :: real
  lowest_price :: real

text \<open>The dictionary that \<^verbatim>\<open>process_exit\<close> appends to \<^verbatim>\<open>trade_log\<close> and returns.\<close>

record ExitResult =
  trade_id :: int
  exit_direction :: string
  exit_entry_price :: real
  exit_price :: real
  adj_exit_price :: real
  pnl_points :: real
  gross_pnl :: real
  commission :: real
  slippage_cost :: real
  net_pnl :: real
  exit_quantity :: int
  exit_reason :: string

text \<open>
  The messages of the risk manager are f-strings around a number; they are kept as a
  datatype that carries the number instead of its decimal rendering.
\<close>

datatype message =
    NoMessage
  | OK
  | MaxDailyLossReached real
  | MaxDailyLossReachedAfterTrade real
  | TradingHalted message
  | MaxTradesReached int
  | PositionAlreadyOpen

record RiskManager =
  config :: StrategyConfig
  daily_pnl :: real
  trades_today :: int
  is_shutdown :: bool
  shutdown_reason :: message
  open_positions :: "(int, Position) fmap"
  trade_log :: "ExitResult list"

definition init :: "StrategyConfig \<Rightarrow> RiskManager" where
  "init cfg =
     \<lparr>config = cfg, daily_pnl = 0, trades_today = 0, is_shutdown = False,
      shutdown_reason = NoMessage, open_positions = fmempty, trade_log = []\<rparr>"

definition reset_daily :: "RiskManager \<Rightarrow> RiskManager" where
  "reset_daily s =
     s\<lparr>daily_pnl := 0, trades_today := 0, is_shutdown := False,
       shutdown_reason := NoMessage\<rparr>"

definition max_loss :: "RiskManager \<Rightarrow> real" where
  "max_loss s = account_size (config s) * max_daily_loss_pct (config s)"

text \<open>
  \<^verbatim>\<open>open_positions\<close> is a dictionary, here a finite map; its \<^verbatim>\<open>len\<close> is the
  number of its keys.
\<close>

definition len_positions :: "RiskManager \<Rightarrow> nat" where
  "len_positions s = fcard (fmdom (open_positions s))"

definition can_trade :: "RiskManager \<Rightarrow> (bool \<times> message) \<times> RiskManager" where
  "can_trade s =
     (if is_shutdown s then ((False, TradingHalted (shutdown_reason s)), s)
      else if daily_pnl s \<le> - max_loss s then
        ((False, MaxDailyLossReached (max_loss s)),
         s\<lparr>is_shutdown := True, shutdown_reason := MaxDailyLossReached (max_loss s)\<rparr>)
      else if max_trades_per_session (config s) \<le> trades_today s then
        ((False, MaxTradesReached (max_trades_per_session (config s))), s)
      else if 0 < len_positions s then ((False, PositionAlreadyOpen), s)
      else ((True, OK), s))"

definition calculate_position_size :: "RiskManager \<Rightarrow> real \<Rightarrow> int" where
  "calculate_position_size s stop_distance_points =
     (if stop_distance_points \<le> 0 then 0
      else
        let risk_amount = account_size (config s) * risk_per_trade_pct (config s);
            cost_per_contract = stop_distance_points * MNQ_POINT_VALUE;
            contracts = py_int (risk_amount / cost_per_contract);
            contracts1 =
              (if contracts = 0 \<and> 1 / 2 \<le> risk_amount / cost_per_contract then 1
               else contracts);
            max_by_margin =
              py_int (account_size (config s) / max (account_size (config s) * (1 / 100)) 1)
        in max 0 (min contracts1 (max 1 max_by_margin)))"

definition process_entry ::
  "int \<Rightarrow> string \<Rightarrow> real \<Rightarrow> real \<Rightarrow> real \<Rightarrow> int \<Rightarrow> RiskManager \<Rightarrow> RiskManager" where
  "process_entry tid dir entry stop target qty s =
     s\<lparr>open_positions :=
         fmupd tid
           \<lparr>direction = dir, entry_price = entry, stop_loss = stop, take_profit = target,
            quantity = qty, highest_price = entry, lowest_price = entry\<rparr>
           (open_positions s),
       trades_today := trades_today s + 1\<rparr>"

text \<open>
  \<^verbatim>\<open>process_exit\<close> returns a dictionary of four zeros for an unknown id
  (\<open>None\<close> here) and the full record otherwise.
\<close>

definition process_exit ::
  "int \<Rightarrow> real \<Rightarrow> string \<Rightarrow> RiskManager \<Rightarrow> ExitResult option \<times> RiskManager" where
  "process_exit tid price why s =
     (case fmlookup (open_positions s) tid of
        None \<Rightarrow> (None, s)
      | Some pos \<Rightarrow>
          let entry = entry_price pos;
              qty = quantity pos;
              slippage_amount = price * slippage_pct (config s);
              adj_exit =
                (if direction pos = ''LONG'' then price - slippage_amount
                 else price + slippage_amount);
              points =
                (if direction pos = ''LONG'' then adj_exit - entry else entry - adj_exit);
              gross = points * MNQ_POINT_VALUE * of_int qty;
              comm = commission_per_contract (config s) * of_int qty * 2;
              slip_cost = slippage_amount * MNQ_POINT_VALUE * of_int qty;
              net = gross - comm;
              pnl' = daily_pnl s + net;
              s1 = s\<lparr>daily_pnl := pnl'\<rparr>;
              s2 =
                (if pnl' \<le> - max_loss s then
                   s1\<lparr>is_shutdown := True,
                      shutdown_reason := MaxDailyLossReachedAfterTrade \<bar>pnl'\<bar>\<rparr>
                 else s1);
              result =
                \<lparr>trade_id = tid, exit_direction = direction pos, exit_entry_price = entry,
                 exit_price = price, adj_exit_price = adj_exit,
                 pnl_points = round2 points, gross_pnl = round2 gross,
                 commission = round2 comm, slippage_cost = round2 slip_cost,
                 net_pnl = round2 net, exit_quantity = qty, exit_reason = why\<rparr>
          in (Some result,
              s2\<lparr>trade_log := trade_log s2 @ [result],
                 open_positions := fmdrop tid (open_positions s2)\<rparr>))"

text \<open>
  \<^verbatim>\<open>update_trailing_stop\<close> mutates the position in place: the water mark is
  written before the profit test, so it is kept on every path.
\<close>

definition set_position :: "int \<Rightarrow> Position \<Rightarrow> RiskManager \<Rightarrow> RiskManager" where
  "set_position tid pos s = s\<lparr>open_positions := fmupd tid pos (open_positions s)\<rparr>"

definition update_trailing_stop ::
  "int \<Rightarrow> real \<Rightarrow> RiskManager \<Rightarrow> real option \<times> RiskManager" where
  "update_trailing_stop tid current_price s =
     (case fmlookup (open_positions s) tid of
        None \<Rightarrow> (None, s)
      | Some pos \<Rightarrow>
          let entry = entry_price pos;
              current_stop = stop_loss pos
          in if direction pos = ''LONG'' then
               let pos1 =
                     (if highest_price pos < current_price
                      then pos\<lparr>highest_price := current_price\<rparr> else pos);
                   profit = current_price - entry
               in if profit \<le> 0 then (None, set_position tid pos1 s)
                  else
                    let trail_amount = profit * trailing_stop_pct (config s);
                        new_stop = highest_price pos1 - trail_amount
                    in if current_stop < new_stop then
                         (Some (round2 new_stop),
                          set_position tid (pos1\<lparr>stop_loss := round2 new_stop\<rparr>) s)
                       else (None, set_position tid pos1 s)
             else
               let pos1 =
                     (if current_price < lowest_price pos
                      then pos\<lparr>lowest_price := current_price\<rparr> else pos);
                   profit = entry - current_price
               in if profit \<le> 0 then (None, set_position tid pos1 s)
                  else
                    let trail_amount = profit * trailing_stop_pct (config s);
                        new_stop = lowest_price pos1 + trail_amount
                    in if new_stop < current_stop then
                         (Some (round2 new_stop),
                          set_position tid (pos1\<lparr>stop_loss := round2 new_stop\<rparr>) s)
                       else (None, set_position tid pos1 s))"

definition check_exit_conditions ::
  "int \<Rightarrow> real \<Rightarrow> real \<Rightarrow> real \<Rightarrow> RiskManager \<Rightarrow> (real \<times> string) option \<times> RiskManager" where
  "check_exit_conditions tid current_high current_low current_close s =
     (case fmlookup (open_positions s) tid of
        None \<Rightarrow> (None, s)
      | Some pos \<Rightarrow>
          let stop = stop_loss pos;
              target = take_profit pos
          in if direction pos = ''LONG'' then
               (if current_low \<le> stop then (Some (stop, ''Stop Loss''), s)
                else if target \<le> current_high then (Some (target, ''Take Profit''), s)
                else (None, snd (update_trailing_stop tid current_close s)))
             else
               (if stop \<le> current_high then (Some (stop, ''Stop Loss''), s)
                else if current_low \<le> target then (Some (target, ''Take Profit''), s)
                else (None, snd (update_trailing_stop tid current_close s))))"

text \<open>
  The state-changing operations of the class, as data, so that a caller's sequence of calls
  is a list. \<^verbatim>\<open>calculate_position_size\<close>, \<^verbatim>\<open>calculate_risk_amount\<close>,
  \<^verbatim>\<open>get_status\<close> and \<^verbatim>\<open>get_trade_log\<close> only read the state.
\<close>

datatype rm_op =
    ResetDaily
  | CanTrade
  | ProcessEntry int string real real real int
  | ProcessExit int real string
  | UpdateTrailingStop int real
  | CheckExitConditions int real real real

fun apply_op :: "rm_op \<Rightarrow> RiskManager \<Rightarrow> RiskManager" where
  "apply_op ResetDaily s = reset_daily s"
| "apply_op CanTrade s = snd (can_trade s)"
| "apply_op (ProcessEntry tid dir entry stop target qty) s =
     process_entry tid dir entry stop target qty s"
| "apply_op (ProcessExit tid price why) s = snd (process_exit tid price why s)"
| "apply_op (UpdateTrailingStop tid price) s = snd (update_trailing_stop tid price s)"
| "apply_op (CheckExitConditions tid hi lo cl) s = snd (check_exit_conditions tid hi lo cl s)"

definition run_ops :: "rm_op list \<Rightarrow> RiskManager \<Rightarrow> RiskManager" where
  "run_ops ops s = fold apply_op ops s"

text \<open>
  The net P&L of a closed trade before it is rounded for the ledger, recomputed from the
  unrounded keys of its record the way \<^verbatim>\<open>process_exit\<close> computes it.
\<close>

definition unrounded_net_pnl :: "StrategyConfig \<Rightarrow> ExitResult \<Rightarrow> real" where
  "unrounded_net_pnl cfg r =
     (if exit_direction r = ''LONG'' then adj_exit_price r - exit_entry_price r
      else exit_entry_price r - adj_exit_price r) * MNQ_POINT_VALUE * of_int (exit_quantity r)
     - commission_per_contract cfg * of_int (exit_quantity r) * 2"

definition is_shutdown_reason :: "message \<Rightarrow> bool" where
  "is_shutdown_reason m =
     (case m of MaxDailyLossReached _ \<Rightarrow> True | TradingHalted _ \<Rightarrow> True | _ \<Rightarrow> False)"

text \<open>The defaults of the \<^verbatim>\<open>StrategyConfig\<close> dataclass.\<close>

definition default_config :: StrategyConfig where
  "default_config =
     \<lparr>account_size = 25000, risk_per_trade_pct = 0.0025, max_daily_loss_pct = 0.02,
      trend_ema_period = 50, trailing_stop_pct = 0.5, max_trades_per_session = 6,
      strategy_mode = ''hybrid1'', slippage_pct = 0.001, commission_per_contract = 0.62\<rparr>"

section \<open>Trade statistics (utils/helpers.py)\<close>

text \<open>The functions take the \<^verbatim>\<open>pnl\<close> column of the trades frame.\<close>

definition mean :: "real list \<Rightarrow> real" where
  "mean xs = sum_list xs / of_nat (length xs)"

definition calculate_win_rate :: "real list \<Rightarrow> real" where
  "calculate_win_rate pnls =
     (if length pnls = 0 then 0
      else of_nat (length (filter (\<lambda>p. 0 < p) pnls)) / of_nat (length pnls))"

definition calculate_avg_rr :: "real list \<Rightarrow> real" where
  "calculate_avg_rr pnls =
     (if length pnls = 0 then 0
      else
        let winners = filter (\<lambda>p. 0 < p) pnls;
            losers = filter (\<lambda>p. p < 0) pnls
        in if length losers = 0 \<or> mean losers = 0 then
             (if 0 < length winners then mean winners else 0)
           else
             let avg_win = (if 0 < length winners then mean winners else 0);
                 avg_loss = \<bar>mean losers\<bar>
             in if 0 < avg_loss then avg_win / avg_loss else 0)"

section \<open>Backtester (engines/backtester.py)\<close>

datatype py_error = IndexError | KeyError

record Bar =
  bar_open :: real
  high :: real
  low :: real
  close :: real
  volume :: real

text \<open>
  Modelled from the spec: \<^verbatim>\<open>strategies/strategy_engine.py\<close> is not part of the
  sources. Its enriched frame carries the columns the tests name, its \<^verbatim>\<open>Signal\<close>
  enumeration has the three directions of a trade proposal, whose \<^verbatim>\<open>value\<close> is
  the direction string handed to the risk manager, and its \<^verbatim>\<open>TradeSignal\<close> has the
  attributes the backtester reads. The three functions imported from it are parameters
  of the backtest.
\<close>

record EnrichedBar = Bar +
  ema_fast :: real
  ema_slow :: real
  ema_trend :: real
  atr :: real
  volume_confirmed :: bool
  rsi :: real
  vwap :: real

datatype Signal = LONG | SHORT | FLAT

fun signal_value :: "Signal \<Rightarrow> string" where
  "signal_value LONG = ''LONG''"
| "signal_value SHORT = ''SHORT''"
| "signal_value FLAT = ''FLAT''"

record TradeSignal =
  signal :: Signal
  sig_entry_price :: real
  sig_stop_loss :: real
  sig_take_profit :: real
  confidence :: real
  strategy :: string
  reason :: string

record strategy_engine =
  compute_indicators :: "Bar list \<Rightarrow> StrategyConfig \<Rightarrow> EnrichedBar list"
  generate_signal_hybrid1 :: "EnrichedBar list \<Rightarrow> StrategyConfig \<Rightarrow> int \<Rightarrow> TradeSignal option"
  generate_signal_hybrid2 ::
    "EnrichedBar list \<Rightarrow> StrategyConfig \<Rightarrow> real option \<Rightarrow> real option \<Rightarrow> int
       \<Rightarrow> TradeSignal option"

text \<open>The dictionary \<^verbatim>\<open>current_trade\<close>, and the ledger row that extends it on exit.\<close>

record open_trade =
  ct_id :: int
  ct_direction :: string
  ct_entry_price :: real
  ct_stop_loss :: real
  ct_take_profit :: real
  ct_quantity :: int
  ct_strategy :: string
  ct_reason :: string
  ct_confidence :: real
  entry_bar :: int

record trade_record = open_trade +
  tr_exit_price :: real
  tr_exit_reason :: string
  pnl :: real
  tr_gross_pnl :: real
  tr_commission :: real
  exit_bar :: int
  bars_held :: int

text \<open>
  Of the metrics dictionary the counts, the two ratios above and the balances are kept;
  the drawdown, the Sharpe ratio and the other float statistics are left out. The one
  division by a configuration value among them, by \<^verbatim>\<open>account_size\<close> for the
  return, is only reached with a trade in the ledger, and a trade is only entered with a
  positive quantity, which a zero account size never gives.
\<close>

record metric_values =
  total_trades :: nat
  winning_trades :: nat
  losing_trades :: nat
  win_rate :: real
  avg_rr :: real
  total_net_pnl :: real
  final_balance :: real
  walk_forward_used :: bool

datatype Metrics =
    EmptyMetrics
  | InsufficientData
  | NoTrades bool
  | Computed metric_values

record BacktestResult =
  trades :: "trade_record list"
  equity_curve :: "real list"
  metrics :: Metrics
  signals_generated :: nat
  signals_filtered :: nat

definition new_result :: BacktestResult where
  "new_result =
     \<lparr>trades = [], equity_curve = [], metrics = EmptyMetrics,
      signals_generated = 0, signals_filtered = 0\<rparr>"

text \<open>
  \<^verbatim>\<open>df.iloc[i]\<close>: a negative position counts from the end, a position outside the
  frame raises. \<^verbatim>\<open>df.iloc[a:b]\<close> clips both ends instead.
\<close>

definition iloc :: "'a list \<Rightarrow> int \<Rightarrow> py_error + 'a" where
  "iloc xs i =
     (if 0 \<le> i \<and> i < int (length xs) then Inr (xs ! nat i)
      else if i < 0 \<and> - int (length xs) \<le> i then Inr (xs ! nat (int (length xs) + i))
      else Inl IndexError)"

definition clip_index :: "nat \<Rightarrow> int \<Rightarrow> nat" where
  "clip_index n k = (if k < 0 then nat (max (int n + k) 0) else nat (min k (int n)))"

definition iloc_slice :: "'a list \<Rightarrow> int \<Rightarrow> int \<Rightarrow> 'a list" where
  "iloc_slice xs a b =
     (let lo = clip_index (length xs) a; hi = clip_index (length xs) b
      in take (hi - lo) (drop lo xs))"

fun list_max :: "real list \<Rightarrow> real" where
  "list_max [] = 0"
| "list_max (x # xs) = fold max xs x"

fun list_min :: "real list \<Rightarrow> real" where
  "list_min [] = 0"
| "list_min (x # xs) = fold min xs x"

text \<open>The local variables of the evaluation loop, with the result object it counts into.\<close>

record loop_state =
  risk_mgr :: RiskManager
  account :: real
  equity :: "real list"
  loop_trades :: "trade_record list"
  current_trade :: "open_trade option"
  trade_id_counter :: int
  orb_high :: "real option"
  orb_low :: "real option"
  result :: BacktestResult

definition initial_state :: "StrategyConfig \<Rightarrow> loop_state" where
  "initial_state cfg =
     \<lparr>risk_mgr = init cfg, account = account_size cfg, equity = [account_size cfg],
      loop_trades = [], current_trade = None, trade_id_counter = 0,
      orb_high = None, orb_low = None, result = new_result\<rparr>"

text \<open>
  The loop body in its four parts. The first reads the row (and raises where the position
  is outside the frame) and, every 78 bars, takes the opening range from the next three
  rows and resets the daily counters.
\<close>

definition session_phase :: "EnrichedBar list \<Rightarrow> int \<Rightarrow> loop_state \<Rightarrow> py_error + loop_state" where
  "session_phase df_full i st =
     (case iloc df_full i of
        Inl e \<Rightarrow> Inl e
      | Inr row \<Rightarrow>
          if i mod 78 = 0 then
            let orb_slice = iloc_slice df_full i (i + 3);
                st1 =
                  (if 2 \<le> length orb_slice then
                     st\<lparr>orb_high := Some (list_max (map high orb_slice)),
                        orb_low := Some (list_min (map low orb_slice))\<rparr>
                   else st)
            in Inr (st1\<lparr>risk_mgr := reset_daily (risk_mgr st1)\<rparr>)
          else Inr st)"

text \<open>
  The ledger row of a closed trade. The backtester reads three keys of what
  \<^verbatim>\<open>process_exit\<close> returned; the dictionary returned for an unknown id has
  \<^verbatim>\<open>net_pnl\<close> but not \<^verbatim>\<open>gross_pnl\<close>, so reading it raises.
\<close>

definition close_trade ::
  "open_trade \<Rightarrow> real \<Rightarrow> string \<Rightarrow> ExitResult \<Rightarrow> int \<Rightarrow> trade_record" where
  "close_trade ct price why r bar =
     open_trade.extend ct
       (trade_record.fields price why (net_pnl r) (gross_pnl r) (commission r) bar
          (bar - entry_bar ct))"

definition exit_phase :: "EnrichedBar list \<Rightarrow> int \<Rightarrow> loop_state \<Rightarrow> py_error + loop_state" where
  "exit_phase df_full i st =
     (case current_trade st of
        None \<Rightarrow> Inr st
      | Some ct \<Rightarrow>
          (case iloc df_full i of
             Inl e \<Rightarrow> Inl e
           | Inr row \<Rightarrow>
               (case check_exit_conditions (ct_id ct) (high row) (low row) (close row)
                       (risk_mgr st) of
                  (None, rm1) \<Rightarrow> Inr (st\<lparr>risk_mgr := rm1\<rparr>)
                | (Some (price, why), rm1) \<Rightarrow>
                    (case process_exit (ct_id ct) price why rm1 of
                       (None, rm2) \<Rightarrow> Inl KeyError
                     | (Some r, rm2) \<Rightarrow>
                         Inr (st\<lparr>risk_mgr := rm2,
                                account := account st + net_pnl r,
                                loop_trades := loop_trades st @ [close_trade ct price why r i],
                                current_trade := None\<rparr>)))))"

definition choose_signal ::
  "strategy_engine \<Rightarrow> StrategyConfig \<Rightarrow> EnrichedBar list \<Rightarrow> real option \<Rightarrow> real option \<Rightarrow> int
     \<Rightarrow> TradeSignal option" where
  "choose_signal eng cfg df_full oh ol i =
     (if strategy_mode cfg = ''hybrid1'' then generate_signal_hybrid1 eng df_full cfg i
      else if strategy_mode cfg = ''hybrid2'' then generate_signal_hybrid2 eng df_full cfg oh ol i
      else
        let sig1 = generate_signal_hybrid1 eng df_full cfg i;
            sig2 = generate_signal_hybrid2 eng df_full cfg oh ol i
        in (case sig1 of
              None \<Rightarrow> sig2
            | Some s1 \<Rightarrow>
                (case sig2 of
                   None \<Rightarrow> sig1
                 | Some s2 \<Rightarrow> if confidence s2 \<le> confidence s1 then sig1 else sig2)))"

definition count_generated :: "loop_state \<Rightarrow> loop_state" where
  "count_generated st =
     st\<lparr>result := (result st)\<lparr>signals_generated := signals_generated (result st) + 1\<rparr>\<rparr>"

definition count_filtered :: "loop_state \<Rightarrow> loop_state" where
  "count_filtered st =
     st\<lparr>result := (result st)\<lparr>signals_filtered := signals_filtered (result st) + 1\<rparr>\<rparr>"

definition enter_trade :: "StrategyConfig \<Rightarrow> TradeSignal \<Rightarrow> int \<Rightarrow> int \<Rightarrow> loop_state \<Rightarrow> loop_state" where
  "enter_trade cfg sg qty i st =
     (let slippage = sig_entry_price sg * slippage_pct cfg;
          adj_entry =
            (if signal sg = LONG then sig_entry_price sg + slippage
             else sig_entry_price sg - slippage);
          tid = trade_id_counter st + 1
      in st\<lparr>trade_id_counter := tid,
            risk_mgr :=
              process_entry tid (signal_value (signal sg)) adj_entry (sig_stop_loss sg)
                (sig_take_profit sg) qty (risk_mgr st),
            current_trade :=
              Some \<lparr>ct_id = tid, ct_direction = signal_value (signal sg),
                    ct_entry_price = round2 adj_entry, ct_stop_loss = sig_stop_loss sg,
                    ct_take_profit = sig_take_profit sg, ct_quantity = qty,
                    ct_strategy = strategy sg, ct_reason = reason sg,
                    ct_confidence = confidence sg, entry_bar = i\<rparr>\<rparr>)"

definition entry_phase ::
  "strategy_engine \<Rightarrow> StrategyConfig \<Rightarrow> EnrichedBar list \<Rightarrow> int \<Rightarrow> int \<Rightarrow> loop_state
     \<Rightarrow> py_error + loop_state" where
  "entry_phase eng cfg df_full test_start i st =
     (case current_trade st of
        Some ct \<Rightarrow> Inr st
      | None \<Rightarrow>
          (case can_trade (risk_mgr st) of
             ((allowed, why), rm1) \<Rightarrow>
               let st1 = st\<lparr>risk_mgr := rm1\<rparr>
               in if allowed \<and> test_start + 3 < i then
                    (case choose_signal eng cfg df_full (orb_high st1) (orb_low st1) i of
                       None \<Rightarrow> Inr st1
                     | Some sg \<Rightarrow>
                         if signal sg \<noteq> FLAT then
                           let st2 = count_generated st1;
                               stop_dist = \<bar>sig_entry_price sg - sig_stop_loss sg\<bar>;
                               qty = calculate_position_size (risk_mgr st2) stop_dist
                           in if 0 < qty \<and> 1 / 2 \<le> confidence sg
                              then Inr (enter_trade cfg sg qty i st2)
                              else Inr (count_filtered st2)
                         else Inr st1)
                  else Inr st1))"

definition equity_phase :: "int \<Rightarrow> loop_state \<Rightarrow> py_error + loop_state" where
  "equity_phase i st = Inr (st\<lparr>equity := equity st @ [account st]\<rparr>)"

definition bar_steps ::
  "strategy_engine \<Rightarrow> StrategyConfig \<Rightarrow> EnrichedBar list \<Rightarrow> int \<Rightarrow> int
     \<Rightarrow> (loop_state \<Rightarrow> py_error + loop_state) list" where
  "bar_steps eng cfg df_full test_start i =
     [session_phase df_full i, exit_phase df_full i,
      entry_phase eng cfg df_full test_start i, equity_phase i]"

text \<open>Steps run in order; the first one that raises ends the run.\<close>

fun run_steps :: "('s \<Rightarrow> 'e + 's) list \<Rightarrow> 's \<Rightarrow> 'e + 's" where
  "run_steps [] st = Inr st"
| "run_steps (f # fs) st = (case f st of Inl e \<Rightarrow> Inl e | Inr st' \<Rightarrow> run_steps fs st')"

text \<open>\<^verbatim>\<open>range(test_start, len(df_full))\<close>.\<close>

definition bar_range :: "int \<Rightarrow> EnrichedBar list \<Rightarrow> int list" where
  "bar_range test_start df_full = [test_start..int (length df_full) - 1]"

definition loop_steps ::
  "strategy_engine \<Rightarrow> StrategyConfig \<Rightarrow> EnrichedBar list \<Rightarrow> int
     \<Rightarrow> (loop_state \<Rightarrow> py_error + loop_state) list" where
  "loop_steps eng cfg df_full test_start =
     concat (map (bar_steps eng cfg df_full test_start) (bar_range test_start df_full))"

text \<open>After the loop a position that is still open is closed at the last close.\<close>

definition final_close :: "EnrichedBar list \<Rightarrow> loop_state \<Rightarrow> py_error + loop_state" where
  "final_close df_full st =
     (case current_trade st of
        None \<Rightarrow> Inr st
      | Some ct \<Rightarrow>
          (case iloc df_full (- 1) of
             Inl e \<Rightarrow> Inl e
           | Inr row \<Rightarrow>
               (case process_exit (ct_id ct) (close row) ''Session End'' (risk_mgr st) of
                  (None, rm2) \<Rightarrow> Inl KeyError
                | (Some r, rm2) \<Rightarrow>
                    let acc = account st + net_pnl r
                    in Inr (st\<lparr>risk_mgr := rm2,
                              account := acc,
                              loop_trades :=
                                loop_trades st @
                                  [close_trade ct (close row) ''Session End'' r
                                     (int (length df_full) - 1)],
                              equity := equity st @ [acc]\<rparr>))))"

definition test_start_of :: "Bar list \<Rightarrow> StrategyConfig \<Rightarrow> bool \<Rightarrow> real \<Rightarrow> int" where
  "test_start_of df cfg walk_forward in_sample_pct =
     (if walk_forward then py_int (of_nat (length df) * in_sample_pct)
      else trend_ema_period cfg + 5)"

text \<open>
  Everything \<^verbatim>\<open>run_backtest\<close> does to its state between the data check and the
  metrics: the loop, then the closing of the last position.
\<close>

definition backtest_steps ::
  "strategy_engine \<Rightarrow> Bar list \<Rightarrow> StrategyConfig \<Rightarrow> bool \<Rightarrow> real
     \<Rightarrow> (loop_state \<Rightarrow> py_error + loop_state) list" where
  "backtest_steps eng df cfg walk_forward in_sample_pct =
     (let df_full = compute_indicators eng df cfg;
          test_start = test_start_of df cfg walk_forward in_sample_pct
      in loop_steps eng cfg df_full test_start @ [final_close df_full])"

text \<open>
  With trades in the ledger the metrics read \<^verbatim>\<open>df.index[test_start]\<close> and
  \<^verbatim>\<open>df.index[-1]\<close> of the input frame.
\<close>

definition compute_metrics ::
  "Bar list \<Rightarrow> StrategyConfig \<Rightarrow> bool \<Rightarrow> int \<Rightarrow> loop_state \<Rightarrow> py_error + Metrics" where
  "compute_metrics df cfg walk_forward test_start st =
     (if loop_trades st = [] then Inr (NoTrades walk_forward)
      else
        (case iloc df test_start of
           Inl e \<Rightarrow> Inl e
         | Inr first_row \<Rightarrow>
             (case iloc df (- 1) of
                Inl e \<Rightarrow> Inl e
              | Inr last_row \<Rightarrow>
                  let pnls = map pnl (loop_trades st)
                  in Inr (Computed
                       \<lparr>total_trades = length pnls,
                        winning_trades = length (filter (\<lambda>p. 0 < p) pnls),
                        losing_trades = length (filter (\<lambda>p. p \<le> 0) pnls),
                        win_rate = calculate_win_rate pnls,
                        avg_rr = calculate_avg_rr pnls,
                        total_net_pnl = round2 (account st - account_size cfg),
                        final_balance = round2 (account st),
                        walk_forward_used = walk_forward\<rparr>))))"

definition run_backtest ::
  "strategy_engine \<Rightarrow> Bar list \<Rightarrow> StrategyConfig \<Rightarrow> bool \<Rightarrow> real \<Rightarrow> py_error + BacktestResult" where
  "run_backtest eng df cfg walk_forward in_sample_pct =
     (if int (length df) < trend_ema_period cfg + 20 then
        Inr (new_result\<lparr>metrics := InsufficientData\<rparr>)
      else
        (case run_steps (backtest_steps eng df cfg walk_forward in_sample_pct)
                (initial_state cfg) of
           Inl e \<Rightarrow> Inl e
         | Inr st \<Rightarrow>
             (case compute_metrics df cfg walk_forward
                     (test_start_of df cfg walk_forward in_sample_pct) st of
                Inl e \<Rightarrow> Inl e
              | Inr m \<Rightarrow>
                  Inr ((result st)\<lparr>trades := loop_trades st, equity_curve := equity st,
                                   metrics := m\<rparr>))))"

section \<open>Example data\<close>

text \<open>
  The position of the unit tests (\<^verbatim>\<open>process_entry(1, "LONG", 21500, 21475, 21550, 1)\<close>
  on a fresh risk manager with the default configuration) and its SHORT mirror image.
\<close>

definition example_long :: RiskManager where
  "example_long = process_entry 1 ''LONG'' 21500 21475 21550 1 (init default_config)"

definition example_short :: RiskManager where
  "example_short = process_entry 1 ''SHORT'' 21500 21525 21450 1 (init default_config)"

text \<open>
  A stand-in for the absent strategy engine: indicators that copy the close, a first
  strategy that proposes the same LONG trade on every bar and a second that never proposes.
\<close>

definition flat_bar :: Bar where
  "flat_bar = \<lparr>bar_open = 21500, high = 21510, low = 21490, close = 21500, volume = 1000\<rparr>"

definition example_indicators :: "Bar list \<Rightarrow> StrategyConfig \<Rightarrow> EnrichedBar list" where
  "example_indicators df cfg =
     map (\<lambda>b. Bar.extend b (EnrichedBar.fields (close b) (close b) (close b) 0 True 50 (close b))) df"

definition example_signal :: TradeSignal where
  "example_signal =
     \<lparr>signal = LONG, sig_entry_price = 21500, sig_stop_loss = 21475, sig_take_profit = 21550,
      confidence = 4 / 5, strategy = ''hybrid1'', reason = ''example''\<rparr>"

definition example_engine :: strategy_engine where
  "example_engine =
     \<lparr>compute_indicators = example_indicators,
      generate_signal_hybrid1 = (\<lambda>df cfg i. Some example_signal),
      generate_signal_hybrid2 = (\<lambda>df cfg oh ol i. None)\<rparr>"

text \<open>
  A losing LONG trade under the default configuration, entered at 21500 and stopped out
  at 21475.25 (a quarter-point tick).
\<close>

definition example_ops :: "rm_op list" where
  "example_ops =
     [ProcessEntry 1 ''LONG'' 21500 21475.25 21550 1, ProcessExit 1 21475.25 ''Stop Loss'']"

text \<open>
  The state of \<^verbatim>\<open>test_max_daily_loss_shutdown\<close>: a fresh risk manager whose
  \<^verbatim>\<open>daily_pnl\<close> is set to the loss limit of 500; and a winning trade of ten
  contracts.
\<close>

definition loss_limit_state :: RiskManager where
  "loss_limit_state = (init default_config)\<lparr>daily_pnl := - 500\<rparr>"

definition recovery_ops :: "rm_op list" where
  "recovery_ops =
     [ProcessEntry 1 ''LONG'' 21500 21475 21550 10, ProcessExit 1 21550 ''Take Profit'']"

text \<open>A losing trade of ten contracts that takes the daily P&L past the loss limit.\<close>

definition losing_ops :: "rm_op list" where
  "losing_ops =
     [ProcessEntry 1 ''LONG'' 21500 21475 21550 10, ProcessExit 1 21470 ''Stop Loss'']"

text \<open>
  Positions whose initial stop is not a multiple of 0.01, under a trailing fraction of
  1.5.
\<close>

definition wide_trail_config :: StrategyConfig where
  "wide_trail_config = default_config\<lparr>trailing_stop_pct := 3 / 2\<rparr>"

definition unrounded_long :: RiskManager where
  "unrounded_long = process_entry 1 ''LONG'' 21500 21475.003 21550 1 (init wide_trail_config)"

definition unrounded_short :: RiskManager where
  "unrounded_short = process_entry 1 ''SHORT'' 21500 21524.997 21450 1 (init wide_trail_config)"

text \<open>
  An example backtest: seventy identical bars, the default configuration and the stand-in
  engine, walk-forward with the last eighth (bars 61 to 69) evaluated. The loop opens one
  LONG position at bar 65, nothing stops it out, and it is closed after the loop. The
  states the run passes through and its result are written out here.
\<close>

definition example_df :: "Bar list" where
  "example_df = replicate 70 flat_bar"

definition rich_bar :: EnrichedBar where
  "rich_bar = Bar.extend flat_bar (EnrichedBar.fields 21500 21500 21500 0 True 50 21500)"

definition example_full :: "EnrichedBar list" where
  "example_full = replicate 70 rich_bar"

definition example_open_trade :: open_trade where
  "example_open_trade =
     \<lparr>ct_id = 1, ct_direction = ''LONG'', ct_entry_price = 21521.5, ct_stop_loss = 21475,
      ct_take_profit = 21550, ct_quantity = 1, ct_strategy = ''hybrid1'',
      ct_reason = ''example'', ct_confidence = 4 / 5, entry_bar = 65\<rparr>"

definition example_flat :: "nat \<Rightarrow> loop_state" where
  "example_flat n = (initial_state default_config)\<lparr>equity := replicate (Suc n) 25000\<rparr>"

definition example_rm :: RiskManager where
  "example_rm = process_entry 1 ''LONG'' 21521.5 21475 21550 1 (init default_config)"

definition example_holding :: "nat \<Rightarrow> loop_state" where
  "example_holding n =
     (initial_state default_config)
       \<lparr>risk_mgr := example_rm,
        equity := replicate (Suc n) 25000,
        current_trade := Some example_open_trade,
        trade_id_counter := 1,
        result := new_result\<lparr>signals_generated := 1\<rparr>\<rparr>"

definition example_exit_record :: ExitResult where
  "example_exit_record =
     \<lparr>trade_id = 1, exit_direction = ''LONG'', exit_entry_price = 21521.5,
      exit_price = 21500, adj_exit_price = 21478.5, pnl_points = - 43, gross_pnl = - 86,
      commission = 1.24, slippage_cost = 43, net_pnl = - 87.24, exit_quantity = 1,
      exit_reason = ''Session End''\<rparr>"

definition example_rm_closed :: RiskManager where
  "example_rm_closed =
     (init default_config)
       \<lparr>daily_pnl := - 87.24, trades_today := 1, trade_log := [example_exit_record]\<rparr>"

definition example_trade :: trade_record where
  "example_trade = close_trade example_open_trade 21500 ''Session End'' example_exit_record 69"

definition example_closed :: "nat \<Rightarrow> loop_state" where
  "example_closed n =
     (example_holding n)
       \<lparr>risk_mgr := example_rm_closed, account := 24912.76, loop_trades := [example_trade],
        equity := replicate (Suc n) 25000 @ [24912.76]\<rparr>"

definition example_result :: BacktestResult where
  "example_result =
     \<lparr>trades = [example_trade], equity_curve = replicate 10 25000 @ [24912.76],
      metrics = Computed
        \<lparr>total_trades = 1, winning_trades = 0, losing_trades = 1, win_rate = 0, avg_rr = 0,
         total_net_pnl = - 87.24, final_balance = 24912.76, walk_forward_used = True\<rparr>,
      signals_generated = 1, signals_filtered = 0\<rparr>"

section \<open>Auxiliary notions\<close>

definition stop_of :: "int \<Rightarrow> RiskManager \<Rightarrow> real option" where
  "stop_of tid s = map_option stop_loss (fmlookup (open_positions s) tid)"

text \<open>The shutdown flag is set whenever the daily P&L is at or below the loss limit.\<close>

definition latch_inv :: "RiskManager \<Rightarrow> bool" where
  "latch_inv s \<longleftrightarrow> (daily_pnl s \<le> - max_loss s \<longrightarrow> is_shutdown s)"

definition one_position :: "loop_state \<Rightarrow> bool" where
  "one_position st \<longleftrightarrow> len_positions (risk_mgr st) \<le> 1"

text \<open>The running balance is the starting balance plus the P&L of the ledger so far.\<close>

definition balanced :: "real \<Rightarrow> loop_state \<Rightarrow> bool" where
  "balanced start st \<longleftrightarrow> account st = start + sum_list (map pnl (loop_trades st))"

text \<open>No trade closed inside the loop carries the reason of the closing after it.\<close>

definition in_loop :: "loop_state \<Rightarrow> bool" where
  "in_loop st \<longleftrightarrow> (\<forall>t\<in>set (loop_trades st). tr_exit_reason t \<noteq> ''Session End'')"

text \<open>
  How the risk manager's state after some calls relates to the state before them: the
  configuration is the same, the ledger has grown by some records, the daily P&L has grown
  by their unrounded net P&L, and each of them carries that amount rounded.
\<close>

definition settles :: "RiskManager \<Rightarrow> RiskManager \<Rightarrow> bool" where
  "settles s s' \<longleftrightarrow>
     config s' = config s \<and>
     (\<exists>new. trade_log s' = trade_log s @ new
        \<and> daily_pnl s' = daily_pnl s + (\<Sum>r\<leftarrow>new. unrounded_net_pnl (config s) r)
        \<and> (\<forall>r\<in>set new. net_pnl r = round2 (unrounded_net_pnl (config s) r)))"

section \<open>Exit priority\<close>

text \<open>
  C3. A bar that reaches both the stop and the target of an open LONG position
  (low at or below the stop, high at or above the target) is resolved as the stop-loss
  exit at the stop price, not as the take-profit. For a position of any other direction
  (SHORT) a bar whose high reaches the stop is the stop-loss exit even when its low also
  reaches the target.
\<close>

theorem check_exit_conditions_stop_first:
  assumes "fmlookup (open_positions s) tid = Some pos"
    and "direction pos = ''LONG'' \<and> lo \<le> stop_loss pos \<and> take_profit pos \<le> hi
         \<or> direction pos \<noteq> ''LONG'' \<and> stop_loss pos \<le> hi \<and> lo \<le> take_profit pos"
  shows "fst (check_exit_conditions tid hi lo cl s) = Some (stop_loss pos, ''Stop Loss'')"
  using assms by (auto simp add: check_exit_conditions_def)

theorem check_exit_conditions_stop_first_witness:
  "fst (check_exit_conditions 1 21560 21470 21480 example_long) = Some (21475, ''Stop Loss'')
   \<and> fst (check_exit_conditions 1 21530 21440 21460 example_short) = Some (21525, ''Stop Loss'')"
proof -
  let ?long = "\<lparr>direction = ''LONG'', entry_price = 21500, stop_loss = 21475,
                take_profit = 21550, quantity = 1, highest_price = 21500,
                lowest_price = 21500\<rparr>"
  let ?short = "\<lparr>direction = ''SHORT'', entry_price = 21500, stop_loss = 21525,
                 take_profit = 21450, quantity = 1, highest_price = 21500,
                 lowest_price = 21500\<rparr>"
  have l: "fmlookup (open_positions example_long) 1 = Some ?long"
    by (simp add: example_long_def process_entry_def)
  have s: "fmlookup (open_positions example_short) 1 = Some ?short"
    by (simp add: example_short_def process_entry_def)
  have "fst (check_exit_conditions 1 21560 21470 21480 example_long)
          = Some (stop_loss ?long, ''Stop Loss'')"
    by (rule check_exit_conditions_stop_first [OF l]) simp
  moreover have "fst (check_exit_conditions 1 21530 21440 21460 example_short)
          = Some (stop_loss ?short, ''Stop Loss'')"
    by (rule check_exit_conditions_stop_first [OF s]) simp
  ultimately show ?thesis by simp
qed

section \<open>Rounding\<close>

lemma py_round_near: "\<bar>of_int (py_round x) - x\<bar> \<le> 1 / 2"
  unfolding py_round_def Let_def by (auto; linarith)

lemma round2_near: "\<bar>round2 x - x\<bar> \<le> 1 / 200"
proof -
  have "\<bar>of_int (py_round (x * 100)) - x * 100\<bar> \<le> 1 / 2" by (rule py_round_near)
  then show ?thesis unfolding round2_def by (simp add: field_simps abs_le_iff)
qed

lemma py_round_of_int: "py_round (of_int n) = n"
  by (simp add: py_round_def)

lemma round2_idem: "round2 (round2 x) = round2 x"
  by (simp add: round2_def py_round_of_int)

lemma py_round_mono: "x \<le> y \<Longrightarrow> py_round x \<le> py_round y"
proof -
  assume xy: "x \<le> y"
  have fl: "\<lfloor>x\<rfloor> \<le> \<lfloor>y\<rfloor>" using xy by (rule floor_mono)
  show ?thesis
  proof (cases "\<lfloor>x\<rfloor> = \<lfloor>y\<rfloor>")
    case True
    then show ?thesis using xy unfolding py_round_def Let_def by auto
  next
    case False
    then have lt: "\<lfloor>x\<rfloor> + 1 \<le> \<lfloor>y\<rfloor>" using fl by simp
    have a: "py_round x \<le> \<lfloor>x\<rfloor> + 1" unfolding py_round_def Let_def by auto
    have b: "\<lfloor>y\<rfloor> \<le> py_round y" unfolding py_round_def Let_def by auto
    show ?thesis using a b lt by linarith
  qed
qed

lemma round2_mono: "x \<le> y \<Longrightarrow> round2 x \<le> round2 y"
  unfolding round2_def by (simp add: py_round_mono divide_right_mono)

section \<open>The daily reset\<close>

text \<open>
  C10. \<^verbatim>\<open>reset_daily\<close> zeroes the daily P&L and the trade count and clears the
  shutdown flag and its reason, and nothing else: the configuration, the map of open
  positions (so every open position with its stop, water marks and quantity) and the
  trade ledger are the same after the reset.
\<close>

theorem reset_daily_frame:
  "open_positions (reset_daily s) = open_positions s
   \<and> trade_log (reset_daily s) = trade_log s
   \<and> config (reset_daily s) = config s
   \<and> daily_pnl (reset_daily s) = 0
   \<and> trades_today (reset_daily s) = 0
   \<and> \<not> is_shutdown (reset_daily s)
   \<and> shutdown_reason (reset_daily s) = NoMessage"
  by (simp add: reset_daily_def)

section \<open>Entries\<close>

text \<open>
  C9, as stated, fails: with the position of the unit tests open under id 1, a call of
  \<^verbatim>\<open>process_entry\<close> for id 2 leaves two open positions and raises the trade count
  from 1 to 2.
\<close>

theorem process_entry_second_position:
  "fmlookup (open_positions example_long) 2 = None
   \<and> fmlookup (open_positions (process_entry 2 ''LONG'' 21510 21485 21560 1 example_long)) 2 \<noteq> None
   \<and> len_positions example_long = 1
   \<and> len_positions (process_entry 2 ''LONG'' 21510 21485 21560 1 example_long) = 2
   \<and> trades_today example_long = 1
   \<and> trades_today (process_entry 2 ''LONG'' 21510 21485 21560 1 example_long) = 2"
  by (simp add: process_entry_def example_long_def init_def len_positions_def
        fcard_finsert_if)

text \<open>
  C9, amended. \<^verbatim>\<open>process_entry\<close> has no guard and never fails: it stores the new
  position under the given id (replacing a position with the same id, keeping every other
  one, so that the map gains an entry when the id is new) and adds one to the trade count.
\<close>

theorem process_entry_always_registers:
  "open_positions (process_entry tid dir entry stop target qty s) =
     fmupd tid
        \<lparr>direction = dir, entry_price = entry, stop_loss = stop, take_profit = target,
         quantity = qty, highest_price = entry, lowest_price = entry\<rparr>
        (open_positions s)
   \<and> fmdom (open_positions (process_entry tid dir entry stop target qty s)) =
       finsert tid (fmdom (open_positions s))
   \<and> len_positions (process_entry tid dir entry stop target qty s) =
       (if tid |\<in>| fmdom (open_positions s) then len_positions s else len_positions s + 1)
   \<and> trades_today (process_entry tid dir entry stop target qty s) = trades_today s + 1"
  by (simp add: process_entry_def len_positions_def fcard_finsert_if)

section \<open>Average reward to risk\<close>

text \<open>
  C8, as stated, fails: a ledger without a losing trade does not give 0 but the mean of
  the winning trades.
\<close>

theorem calculate_avg_rr_no_losers: "calculate_avg_rr [100, 50] = 75"
  by (simp add: calculate_avg_rr_def mean_def)

lemma sum_list_nonpos: "\<forall>x\<in>set xs. x < (0::real) \<Longrightarrow> sum_list xs \<le> 0"
  by (induction xs) (auto intro: add_nonpos_nonpos)

lemma sum_list_neg: "xs \<noteq> [] \<Longrightarrow> \<forall>x\<in>set xs. x < (0::real) \<Longrightarrow> sum_list xs < 0"
  using sum_list_nonpos by (cases xs) (auto intro: add_neg_nonpos)

lemma sum_list_abs_neg: "\<forall>x\<in>set xs. x < (0::real) \<Longrightarrow> sum_list (map abs xs) = - sum_list xs"
  by (induction xs) auto

lemma mean_losers:
  assumes "ls = filter (\<lambda>p. p < 0) pnls" "ls \<noteq> []"
  shows "mean ls < 0" and "\<bar>mean ls\<bar> = mean (map abs ls)"
proof -
  have neg: "\<forall>x\<in>set ls. x < 0" using assms by auto
  have s: "sum_list ls < 0" using sum_list_neg[OF assms(2) neg] .
  have l: "0 < (of_nat (length ls) :: real)" using assms(2) by simp
  show "mean ls < 0" unfolding mean_def using s l by (simp add: divide_neg_pos)
  show "\<bar>mean ls\<bar> = mean (map abs ls)"
    using sum_list_abs_neg[OF neg] s by (simp add: mean_def)
qed

text \<open>
  C8, amended. With at least one losing trade \<^verbatim>\<open>calculate_avg_rr\<close> returns the mean
  winning P&L (0 when there is no winner) divided by the mean absolute losing P&L; without
  a losing trade it returns the mean winning P&L itself (0 when there is no winner
  either). For the trades +100, -50, +150, -50 it returns 2.5.
\<close>

theorem calculate_avg_rr_cases:
  "calculate_avg_rr pnls =
     (let winners = filter (\<lambda>p. 0 < p) pnls;
          losers = filter (\<lambda>p. p < 0) pnls;
          avg_win = (if winners = [] then 0 else mean winners)
      in if losers = [] then avg_win else avg_win / mean (map abs losers))
   \<and> calculate_avg_rr [100, - 50, 150, - 50] = 5 / 2"
proof
  let ?ls = "filter (\<lambda>p. p < 0) pnls"
  show "calculate_avg_rr pnls =
     (let winners = filter (\<lambda>p. 0 < p) pnls;
          losers = filter (\<lambda>p. p < 0) pnls;
          avg_win = (if winners = [] then 0 else mean winners)
      in if losers = [] then avg_win else avg_win / mean (map abs losers))"
  proof (cases "?ls = []")
    case True
    then show ?thesis
      by (cases pnls) (simp_all add: calculate_avg_rr_def Let_def)
  next
    case False
    have ne: "pnls \<noteq> []" using False by auto
    from mean_losers[OF refl False] have m: "mean ?ls < 0" "\<bar>mean ?ls\<bar> = mean (map abs ?ls)" .
    have "0 < \<bar>mean ?ls\<bar>" using m(1) by simp
    then show ?thesis using False ne m
      by (simp add: calculate_avg_rr_def Let_def)
  qed
  show "calculate_avg_rr [100, - 50, 150, - 50] = 5 / 2"
    by (simp add: calculate_avg_rr_def mean_def)
qed

section \<open>Insufficient data\<close>

text \<open>
  C6. On a frame with fewer than \<^verbatim>\<open>trend_ema_period + 20\<close> rows
  \<^verbatim>\<open>run_backtest\<close> returns normally, with the insufficient-data marker as its
  metrics, no trade, an empty equity curve and both signal counts at zero, whatever the
  configuration, the strategy engine and the walk-forward arguments are.
\<close>

theorem run_backtest_insufficient_data:
  assumes "int (length df) < trend_ema_period cfg + 20"
  shows "run_backtest eng df cfg walk_forward in_sample_pct =
           Inr \<lparr>trades = [], equity_curve = [], metrics = InsufficientData,
                signals_generated = 0, signals_filtered = 0\<rparr>"
  using assms by (simp add: run_backtest_def new_result_def)

theorem run_backtest_insufficient_data_witness:
  "int (length (replicate 69 flat_bar)) < trend_ema_period default_config + 20
   \<and> run_backtest example_engine (replicate 69 flat_bar) default_config True (7 / 10) =
       Inr \<lparr>trades = [], equity_curve = [], metrics = InsufficientData,
            signals_generated = 0, signals_filtered = 0\<rparr>"
proof -
  have short: "int (length (replicate 69 flat_bar)) < trend_ema_period default_config + 20"
    by (simp add: default_config_def)
  show ?thesis
    using short run_backtest_insufficient_data [OF short, of example_engine True "7 / 10"]
    by simp
qed

section \<open>Daily P&L and the ledger\<close>

text \<open>
  C4, as stated, fails: the ledger holds the net P&L rounded to cents while the daily
  P&L adds the unrounded amount. A LONG entry at 21500 stopped out at 21475.25 under the
  default configuration leaves a daily P&L of -93.6905 and a ledger entry of -93.69.
\<close>

theorem daily_pnl_differs_from_ledger:
  "daily_pnl (run_ops [ProcessEntry 1 ''LONG'' 21500 21475.25 21550 1,
                       ProcessExit 1 21475.25 ''Stop Loss''] (reset_daily (init default_config)))
     = - 93.6905
   \<and> map net_pnl (trade_log (run_ops [ProcessEntry 1 ''LONG'' 21500 21475.25 21550 1,
                       ProcessExit 1 21475.25 ''Stop Loss''] (reset_daily (init default_config))))
     = [- 93.69]"
  by (simp add: run_ops_def reset_daily_def init_def default_config_def process_entry_def
       process_exit_def Let_def MNQ_POINT_VALUE_def max_loss_def round2_def py_round_def)

lemma settles_refl: "settles s s"
  by (simp add: settles_def)

lemma settles_trans: "settles a b \<Longrightarrow> settles b c \<Longrightarrow> settles a c"
  unfolding settles_def by (elim conjE exE) (rule conjI, simp, rule_tac x="new @ newa" in exI, auto)

lemma settles_same: "config s' = config s \<Longrightarrow> trade_log s' = trade_log s \<Longrightarrow> daily_pnl s' = daily_pnl s \<Longrightarrow> settles s s'"
  by (simp add: settles_def)

lemma update_trailing_stop_frame:
  "config (snd (update_trailing_stop tid p s)) = config s"
  "trade_log (snd (update_trailing_stop tid p s)) = trade_log s"
  "daily_pnl (snd (update_trailing_stop tid p s)) = daily_pnl s"
  "is_shutdown (snd (update_trailing_stop tid p s)) = is_shutdown s"
  "shutdown_reason (snd (update_trailing_stop tid p s)) = shutdown_reason s"
  "trades_today (snd (update_trailing_stop tid p s)) = trades_today s"
  by (simp_all add: update_trailing_stop_def set_position_def Let_def split: option.split)

lemma check_exit_conditions_frame:
  "config (snd (check_exit_conditions tid h l c s)) = config s"
  "trade_log (snd (check_exit_conditions tid h l c s)) = trade_log s"
  "daily_pnl (snd (check_exit_conditions tid h l c s)) = daily_pnl s"
  "is_shutdown (snd (check_exit_conditions tid h l c s)) = is_shutdown s"
  "shutdown_reason (snd (check_exit_conditions tid h l c s)) = shutdown_reason s"
  "trades_today (snd (check_exit_conditions tid h l c s)) = trades_today s"
  by (simp_all add: check_exit_conditions_def update_trailing_stop_frame Let_def split: option.split)

lemma can_trade_frame:
  "config (snd (can_trade s)) = config s"
  "trade_log (snd (can_trade s)) = trade_log s"
  "daily_pnl (snd (can_trade s)) = daily_pnl s"
  "open_positions (snd (can_trade s)) = open_positions s"
  "trades_today (snd (can_trade s)) = trades_today s"
  by (simp_all add: can_trade_def)

lemma process_exit_settles: "settles s (snd (process_exit tid price why s))"
proof (cases "fmlookup (open_positions s) tid")
  case None
  then show ?thesis by (simp add: process_exit_def settles_refl)
next
  case (Some pos)
  then show ?thesis
    unfolding settles_def process_exit_def
    by (simp add: Let_def unrounded_net_pnl_def)
qed

lemma apply_op_settles: "op \<noteq> ResetDaily \<Longrightarrow> settles s (apply_op op s)"
proof (cases op)
  case (ProcessExit tid price why)
  then show ?thesis by (simp add: process_exit_settles)
qed (simp_all add: settles_same can_trade_frame update_trailing_stop_frame
       check_exit_conditions_frame process_entry_def)

lemma run_ops_settles: "ResetDaily \<notin> set ops \<Longrightarrow> settles s (run_ops ops s)"
proof (induction ops arbitrary: s)
  case Nil
  then show ?case by (simp add: run_ops_def settles_refl)
next
  case (Cons op ops)
  have "op \<noteq> ResetDaily" using Cons.prems by auto
  then have a: "settles s (apply_op op s)" by (rule apply_op_settles)
  have b: "settles (apply_op op s) (run_ops ops (apply_op op s))"
    using Cons by simp
  have "settles s (run_ops ops (apply_op op s))" by (rule settles_trans [OF a b])
  then show ?case by (simp add: run_ops_def)
qed

lemma sum_list_round2_near:
  "\<forall>r\<in>set rs. f r = round2 (g r) \<Longrightarrow> \<bar>(\<Sum>r\<leftarrow>rs. g r) - (\<Sum>r\<leftarrow>rs. f r)\<bar> \<le> of_nat (length rs) / 200"
proof (induction rs)
  case Nil
  then show ?case by simp
next
  case (Cons r rs)
  let ?G = "\<Sum>r\<leftarrow>rs. g r" and ?F = "\<Sum>r\<leftarrow>rs. f r"
  have a: "\<bar>g r - round2 (g r)\<bar> \<le> 1 / 200"
    using round2_near [of "g r"] by (simp add: abs_minus_commute)
  have b: "\<bar>?G - ?F\<bar> \<le> of_nat (length rs) / 200"
    using Cons by simp
  have "\<bar>(g r - round2 (g r)) + (?G - ?F)\<bar> \<le> \<bar>g r - round2 (g r)\<bar> + \<bar>?G - ?F\<bar>"
    by (rule abs_triangle_ineq)
  also have "\<dots> \<le> 1 / 200 + of_nat (length rs) / 200"
    using a b by (rule add_mono)
  finally have "\<bar>(g r - round2 (g r)) + (?G - ?F)\<bar> \<le> of_nat (length (r # rs)) / 200"
    by (simp add: add_divide_distrib)
  moreover have "f r = round2 (g r)" using Cons.prems by simp
  ultimately show ?case by (simp add: algebra_simps)
qed

text \<open>
  C4, amended. After any calls that follow a \<^verbatim>\<open>reset_daily\<close> and contain no
  further reset, the daily P&L equals the sum, over the records appended to the ledger
  since the reset, of their net P&L before rounding (points times point value times
  quantity, less the round-trip commission); the \<^verbatim>\<open>net_pnl\<close> field of each of
  these records is that amount rounded to two decimals, so the sum of the fields is
  within half a cent per record of the daily P&L.
\<close>

theorem daily_pnl_is_unrounded_ledger_sum:
  assumes "ResetDaily \<notin> set ops"
    and "s' = run_ops ops (reset_daily s)"
    and "new = drop (length (trade_log s)) (trade_log s')"
  shows "daily_pnl s' = (\<Sum>r\<leftarrow>new. unrounded_net_pnl (config s) r)
         \<and> (\<forall>r\<in>set new. net_pnl r = round2 (unrounded_net_pnl (config s) r))
         \<and> \<bar>daily_pnl s' - (\<Sum>r\<leftarrow>new. net_pnl r)\<bar> \<le> of_nat (length new) / 200"
proof -
  have "settles (reset_daily s) s'"
    using assms(1,2) by (simp add: run_ops_settles)
  then obtain xs where xs: "trade_log s' = trade_log s @ xs"
      "daily_pnl s' = (\<Sum>r\<leftarrow>xs. unrounded_net_pnl (config s) r)"
      "\<forall>r\<in>set xs. net_pnl r = round2 (unrounded_net_pnl (config s) r)"
    unfolding settles_def by (auto simp add: reset_daily_def)
  have "new = xs" using assms(3) xs(1) by simp
  then show ?thesis using xs sum_list_round2_near[OF xs(3)] by simp
qed


theorem daily_pnl_is_unrounded_ledger_sum_witness:
  "ResetDaily \<notin> set example_ops
   \<and> daily_pnl (run_ops example_ops (reset_daily (init default_config))) = - 93.6905
   \<and> map net_pnl (trade_log (run_ops example_ops (reset_daily (init default_config)))) = [- 93.69]
   \<and> \<bar>- 93.6905 - (- 93.69)\<bar> \<le> (1::real) / 200"
proof -
  let ?s' = "run_ops example_ops (reset_daily (init default_config))"
  let ?new = "drop (length (trade_log (init default_config))) (trade_log ?s')"
  have no_reset: "ResetDaily \<notin> set example_ops"
    by (simp add: example_ops_def)
  have ev: "daily_pnl ?s' = - 93.6905 \<and> map net_pnl (trade_log ?s') = [- 93.69]"
    by (simp add: example_ops_def run_ops_def reset_daily_def init_def default_config_def process_entry_def
       process_exit_def Let_def MNQ_POINT_VALUE_def max_loss_def round2_def py_round_def)
  have new: "?new = trade_log ?s'" by (simp add: init_def)
  have "\<bar>daily_pnl ?s' - (\<Sum>r\<leftarrow>?new. net_pnl r)\<bar> \<le> of_nat (length ?new) / 200"
    using daily_pnl_is_unrounded_ledger_sum [OF no_reset refl refl] by blast
  moreover have "length (map net_pnl (trade_log ?s')) = 1" using ev by simp
  ultimately show ?thesis using no_reset ev new by simp
qed

section \<open>The daily loss limit\<close>

lemmas example_defs = loss_limit_state_def recovery_ops_def run_ops_def init_def default_config_def
       max_loss_def process_entry_def process_exit_def Let_def MNQ_POINT_VALUE_def can_trade_def
       len_positions_def reset_daily_def

text \<open>
  C5, as stated, fails: the shutdown is latched by \<^verbatim>\<open>can_trade\<close> and by
  \<^verbatim>\<open>process_exit\<close>, not by the daily P&L being at the limit. From the state of the
  unit test (daily P&L at the limit of 500, flag not yet set) a winning trade lifts the
  daily P&L above the limit before any check has seen it, and the next
  \<^verbatim>\<open>can_trade\<close> allows trading. The same happens from a fresh risk manager whose
  loss limit is zero.
\<close>

theorem can_trade_allowed_after_loss_limit:
  "daily_pnl loss_limit_state \<le> - max_loss loss_limit_state
   \<and> ResetDaily \<notin> set recovery_ops
   \<and> fst (can_trade (run_ops recovery_ops loss_limit_state)) = (True, OK)
   \<and> daily_pnl (init (default_config\<lparr>max_daily_loss_pct := 0\<rparr>))
        \<le> - max_loss (init (default_config\<lparr>max_daily_loss_pct := 0\<rparr>))
   \<and> fst (can_trade (run_ops recovery_ops (init (default_config\<lparr>max_daily_loss_pct := 0\<rparr>))))
        = (True, OK)"
  by (simp add: example_defs)

lemma max_loss_config: "config s' = config s \<Longrightarrow> max_loss s' = max_loss s"
  by (simp add: max_loss_def)

lemma process_exit_config: "config (snd (process_exit tid price why s)) = config s"
  by (simp add: process_exit_def Let_def split: option.split)

lemma apply_op_config: "config (apply_op op s) = config s"
  by (cases op) (simp_all add: reset_daily_def can_trade_frame process_entry_def
        process_exit_config update_trailing_stop_frame check_exit_conditions_frame)

lemma run_ops_config: "config (run_ops ops s) = config s"
  unfolding run_ops_def by (induction ops arbitrary: s) (simp_all add: apply_op_config)

lemma apply_op_keeps_shutdown:
  "op \<noteq> ResetDaily \<Longrightarrow> is_shutdown s \<Longrightarrow> is_shutdown (apply_op op s)"
proof (cases op)
  case (ProcessExit tid price why)
  assume "is_shutdown s"
  then show ?thesis using ProcessExit
    by (simp add: process_exit_def Let_def split: option.split)
qed (simp_all add: can_trade_def update_trailing_stop_frame check_exit_conditions_frame
       process_entry_def)

lemma run_ops_keeps_shutdown:
  "ResetDaily \<notin> set ops \<Longrightarrow> is_shutdown s \<Longrightarrow> is_shutdown (run_ops ops s)"
proof (induction ops arbitrary: s)
  case Nil
  then show ?case by (simp add: run_ops_def)
next
  case (Cons op ops)
  have "op \<noteq> ResetDaily" using Cons.prems by auto
  then have "is_shutdown (apply_op op s)" using Cons.prems(2) by (rule apply_op_keeps_shutdown)
  then have "is_shutdown (run_ops ops (apply_op op s))" using Cons by simp
  then show ?case by (simp add: run_ops_def)
qed

lemma process_exit_latches:
  "fmlookup (open_positions s) tid \<noteq> None \<Longrightarrow>
   daily_pnl (snd (process_exit tid price why s)) \<le> - max_loss s \<Longrightarrow>
   is_shutdown (snd (process_exit tid price why s))"
  by (auto simp add: process_exit_def Let_def split: if_splits)

lemma apply_op_latch_inv:
  assumes "0 < max_loss s" "latch_inv s"
  shows "latch_inv (apply_op op s)"
proof (cases op)
  case ResetDaily
  then show ?thesis using assms(1) by (simp add: latch_inv_def reset_daily_def max_loss_def)
next
  case CanTrade
  then show ?thesis using assms(2) by (simp add: latch_inv_def can_trade_def max_loss_def)
next
  case (ProcessEntry tid dir entry stop target qty)
  then show ?thesis using assms(2) by (simp add: latch_inv_def process_entry_def max_loss_def)
next
  case (ProcessExit tid price why)
  show ?thesis
  proof (cases "fmlookup (open_positions s) tid")
    case None
    then show ?thesis using assms(2) ProcessExit by (simp add: process_exit_def)
  next
    case (Some pos)
    then have "daily_pnl (snd (process_exit tid price why s)) \<le> - max_loss s \<longrightarrow>
      is_shutdown (snd (process_exit tid price why s))"
      using process_exit_latches [of s tid price why] by simp
    then show ?thesis using ProcessExit
      by (simp add: latch_inv_def max_loss_config [OF process_exit_config])
  qed
next
  case (UpdateTrailingStop tid price)
  then show ?thesis using assms(2)
    by (simp add: latch_inv_def update_trailing_stop_frame max_loss_def)
next
  case (CheckExitConditions tid hi lo cl)
  then show ?thesis using assms(2)
    by (simp add: latch_inv_def check_exit_conditions_frame max_loss_def)
qed

lemma run_ops_latch_inv:
  "0 < max_loss s \<Longrightarrow> latch_inv s \<Longrightarrow> latch_inv (run_ops ops s)"
proof (induction ops arbitrary: s)
  case Nil
  then show ?case by (simp add: run_ops_def)
next
  case (Cons op ops)
  have "latch_inv (apply_op op s)" using Cons.prems by (rule apply_op_latch_inv)
  moreover have "0 < max_loss (apply_op op s)"
    using Cons.prems(1) by (simp add: max_loss_config [OF apply_op_config])
  ultimately have "latch_inv (run_ops ops (apply_op op s))" using Cons.IH by blast
  then show ?case by (simp add: run_ops_def)
qed

text \<open>
  C5, amended. In every state whose daily P&L is at or below the negated loss limit, a
  call of \<^verbatim>\<open>can_trade\<close> is rejected with a shutdown reason and sets the shutdown
  flag. When the loss limit is positive, every state reached from a fresh risk manager by
  its operations has the flag set whenever its daily P&L is at or below the negated limit
  (\<^verbatim>\<open>process_exit\<close> sets it). From every state with the flag set, whatever
  operations other than \<^verbatim>\<open>reset_daily\<close> follow, the flag stays set and
  \<^verbatim>\<open>can_trade\<close> is rejected with the trading-halted reason. After
  \<^verbatim>\<open>reset_daily\<close>, \<^verbatim>\<open>can_trade\<close> allows trading exactly when the loss limit
  and the trade limit are positive and no position is open.
\<close>

theorem shutdown_latched:
  "(daily_pnl s \<le> - max_loss s \<longrightarrow>
      \<not> fst (fst (can_trade s)) \<and> is_shutdown_reason (snd (fst (can_trade s)))
      \<and> is_shutdown (snd (can_trade s)))
   \<and> (0 < max_loss (init cfg) \<and> daily_pnl (run_ops before (init cfg)) \<le> - max_loss (init cfg) \<longrightarrow>
      is_shutdown (run_ops before (init cfg)))
   \<and> (is_shutdown s \<and> ResetDaily \<notin> set ops \<longrightarrow>
      is_shutdown (run_ops ops s)
      \<and> fst (can_trade (run_ops ops s)) = (False, TradingHalted (shutdown_reason (run_ops ops s))))
   \<and> (fst (can_trade (reset_daily s)) = (True, OK) \<longleftrightarrow>
      0 < max_loss s \<and> 0 < max_trades_per_session (config s) \<and> len_positions s = 0)"
proof (intro conjI impI)
  assume "daily_pnl s \<le> - max_loss s"
  then show "\<not> fst (fst (can_trade s))" "is_shutdown_reason (snd (fst (can_trade s)))"
    "is_shutdown (snd (can_trade s))"
    by (simp_all add: can_trade_def is_shutdown_reason_def)
next
  assume a: "0 < max_loss (init cfg) \<and> daily_pnl (run_ops before (init cfg)) \<le> - max_loss (init cfg)"
  have "latch_inv (init cfg)" using a by (simp add: latch_inv_def init_def max_loss_def)
  then have "latch_inv (run_ops before (init cfg))" using a by (simp add: run_ops_latch_inv)
  then show "is_shutdown (run_ops before (init cfg))"
    using a by (simp add: latch_inv_def max_loss_config [OF run_ops_config])
next
  assume a: "is_shutdown s \<and> ResetDaily \<notin> set ops"
  then show l: "is_shutdown (run_ops ops s)" by (simp add: run_ops_keeps_shutdown)
  then show "fst (can_trade (run_ops ops s)) = (False, TradingHalted (shutdown_reason (run_ops ops s)))"
    by (simp add: can_trade_def)
next
  show "fst (can_trade (reset_daily s)) = (True, OK) \<longleftrightarrow>
      0 < max_loss s \<and> 0 < max_trades_per_session (config s) \<and> len_positions s = 0"
    by (auto simp add: can_trade_def reset_daily_def max_loss_def len_positions_def fcard_fempty)
qed

theorem shutdown_latched_witness:
  "daily_pnl loss_limit_state \<le> - max_loss loss_limit_state
   \<and> fst (can_trade loss_limit_state) = (False, MaxDailyLossReached 500)
   \<and> is_shutdown (snd (can_trade loss_limit_state))
   \<and> ResetDaily \<notin> set recovery_ops
   \<and> fst (can_trade (run_ops recovery_ops (snd (can_trade loss_limit_state))))
       = (False, TradingHalted (MaxDailyLossReached 500))
   \<and> fst (can_trade (reset_daily (run_ops recovery_ops (snd (can_trade loss_limit_state)))))
       = (True, OK)
   \<and> 0 < max_loss (init default_config)
   \<and> daily_pnl (run_ops losing_ops (init default_config)) = - 1041.8
   \<and> is_shutdown (run_ops losing_ops (init default_config))"
proof -
  have pos: "0 < max_loss (init default_config)"
    by (simp add: example_defs)
  have loss: "daily_pnl (run_ops losing_ops (init default_config)) = - 1041.8"
    by (simp add: example_defs losing_ops_def)
  have past: "daily_pnl (run_ops losing_ops (init default_config))
                \<le> - max_loss (init default_config)"
    by (simp add: example_defs losing_ops_def)
  have reached: "is_shutdown (run_ops losing_ops (init default_config))"
    using shutdown_latched [of _ default_config losing_ops] pos past by blast
  let ?s1 = "snd (can_trade loss_limit_state)"
  let ?s2 = "run_ops recovery_ops ?s1"
  have lim: "daily_pnl loss_limit_state \<le> - max_loss loss_limit_state"
    by (simp add: example_defs)
  have nr: "ResetDaily \<notin> set recovery_ops"
    by (simp add: recovery_ops_def)
  have first: "fst (can_trade loss_limit_state) = (False, MaxDailyLossReached 500)"
    by (simp add: example_defs)
  have latched: "is_shutdown ?s1"
    using shutdown_latched [of loss_limit_state] lim by blast
  have later: "is_shutdown ?s2 \<and> fst (can_trade ?s2) = (False, TradingHalted (shutdown_reason ?s2))"
    using shutdown_latched [of ?s1 _ _ recovery_ops] latched nr by blast
  have why: "shutdown_reason ?s2 = MaxDailyLossReached 500"
    by (simp add: example_defs)
  have facts: "0 < max_loss ?s2 \<and> 0 < max_trades_per_session (config ?s2) \<and> len_positions ?s2 = 0"
    by (simp add: example_defs)
  have again: "fst (can_trade (reset_daily ?s2)) = (True, OK)"
    using shutdown_latched [of ?s2] facts by blast
  show ?thesis using lim first latched nr later why again pos loss reached by simp
qed

section \<open>Trailing stop\<close>

text \<open>
  C2. The stop of a position is to move only in the profit-protecting direction. The
  code compares the unrounded candidate with the stop and then stores the candidate
  rounded to two decimals: a LONG stop of 21475.003 is replaced by 21475 (candidate
  21475.004), a SHORT stop of 21524.997 by 21525 (candidate 21524.996).
\<close>

theorem trailing_stop_rounds_past_stop:
  "stop_of 1 unrounded_long = Some 21475.003
   \<and> update_trailing_stop 1 21549.992 unrounded_long
        = (Some 21475, set_position 1 \<lparr>direction = ''LONG'', entry_price = 21500, stop_loss = 21475,
             take_profit = 21550, quantity = 1, highest_price = 21549.992, lowest_price = 21500\<rparr> unrounded_long)
   \<and> stop_of 1 (snd (update_trailing_stop 1 21549.992 unrounded_long)) = Some 21475
   \<and> stop_of 1 unrounded_short = Some 21524.997
   \<and> stop_of 1 (snd (update_trailing_stop 1 21450.008 unrounded_short)) = Some 21525"
  by (simp add: stop_of_def unrounded_long_def unrounded_short_def wide_trail_config_def
        default_config_def init_def process_entry_def update_trailing_stop_def set_position_def
        Let_def round2_def py_round_def)


text \<open>
  Once the stop is a multiple of 0.01 (as it is after its first adjustment) no sequence of
  \<^verbatim>\<open>update_trailing_stop\<close> calls moves it against the holder.
\<close>

lemma update_trailing_stop_rounded:
  assumes pos: "fmlookup (open_positions s) tid = Some pos"
    and r: "round2 (stop_loss pos) = stop_loss pos"
  shows "\<exists>pos'. fmlookup (open_positions (snd (update_trailing_stop tid p s))) tid = Some pos'
           \<and> direction pos' = direction pos
           \<and> round2 (stop_loss pos') = stop_loss pos'
           \<and> (if direction pos = ''LONG'' then stop_loss pos \<le> stop_loss pos'
               else stop_loss pos' \<le> stop_loss pos)"
proof -
  have up: "stop_loss pos < x \<Longrightarrow> stop_loss pos \<le> round2 x" for x
    using round2_mono [of "stop_loss pos" x] r by simp
  have down: "x < stop_loss pos \<Longrightarrow> round2 x \<le> stop_loss pos" for x
    using round2_mono [of x "stop_loss pos"] r by simp
  show ?thesis
    using pos r up down
    by (auto simp add: update_trailing_stop_def set_position_def Let_def round2_idem)
qed

lemma update_trailing_stop_others:
  "tid' \<noteq> tid \<Longrightarrow>
   fmlookup (open_positions (snd (update_trailing_stop tid p s))) tid' = fmlookup (open_positions s) tid'"
  by (simp add: update_trailing_stop_def set_position_def Let_def split: option.split)

lemma trailing_stop_monotone_when_rounded:
  assumes "fmlookup (open_positions s) tid = Some pos"
    and "round2 (stop_loss pos) = stop_loss pos"
  shows "\<exists>pos'. fmlookup (open_positions (run_ops (map (UpdateTrailingStop tid) prices) s)) tid = Some pos'
           \<and> direction pos' = direction pos
           \<and> round2 (stop_loss pos') = stop_loss pos'
           \<and> (if direction pos = ''LONG'' then stop_loss pos \<le> stop_loss pos'
               else stop_loss pos' \<le> stop_loss pos)"
  using assms
proof (induction prices arbitrary: s pos)
  case Nil
  then show ?case by (simp add: run_ops_def)
next
  case (Cons p prices)
  from update_trailing_stop_rounded [OF Cons.prems, of p]
  obtain pos1 where p1: "fmlookup (open_positions (snd (update_trailing_stop tid p s))) tid = Some pos1"
    "direction pos1 = direction pos" "round2 (stop_loss pos1) = stop_loss pos1"
    "if direction pos = ''LONG'' then stop_loss pos \<le> stop_loss pos1 else stop_loss pos1 \<le> stop_loss pos"
    by blast
  from Cons.IH [OF p1(1) p1(3)]
  obtain pos2 where p2: "fmlookup (open_positions (run_ops (map (UpdateTrailingStop tid) prices)
        (snd (update_trailing_stop tid p s)))) tid = Some pos2"
    "direction pos2 = direction pos1" "round2 (stop_loss pos2) = stop_loss pos2"
    "if direction pos1 = ''LONG'' then stop_loss pos1 \<le> stop_loss pos2 else stop_loss pos2 \<le> stop_loss pos1"
    by blast
  have "if direction pos = ''LONG'' then stop_loss pos \<le> stop_loss pos2 else stop_loss pos2 \<le> stop_loss pos"
    using p1(2,4) p2(4) by (auto split: if_splits)
  then show ?case using p2 p1(2) by (simp add: run_ops_def)
qed


section \<open>The evaluation loop\<close>

lemma run_steps_append:
  "run_steps (fs @ gs) st =
     (case run_steps fs st of Inl e \<Rightarrow> Inl e | Inr st1 \<Rightarrow> run_steps gs st1)"
proof (induction fs arbitrary: st)
  case Nil
  then show ?case by simp
next
  case (Cons f fs)
  then show ?case by (cases "f st") simp_all
qed

lemma run_steps_invariant:
  assumes "\<forall>f\<in>set fs. \<forall>a b. P a \<longrightarrow> f a = Inr b \<longrightarrow> P b"
    and "P st" and "run_steps fs st = Inr st'"
  shows "P st'"
  using assms
proof (induction fs arbitrary: st)
  case Nil
  then show ?case by simp
next
  case (Cons f fs)
  from Cons.prems(3) have "\<exists>st1. f st = Inr st1 \<and> run_steps fs st1 = Inr st'"
    by (cases "f st") simp_all
  then obtain st1 where f: "f st = Inr st1" and rest: "run_steps fs st1 = Inr st'"
    by blast
  have here: "\<forall>a b. P a \<longrightarrow> f a = Inr b \<longrightarrow> P b"
    using Cons.prems(1) by (metis list.set_intros(1))
  have later: "\<forall>g\<in>set fs. \<forall>a b. P a \<longrightarrow> g a = Inr b \<longrightarrow> P b"
    using Cons.prems(1) by (metis list.set_intros(2))
  have "P st1" using here Cons.prems(2) f by blast
  with later show ?case using rest by (rule Cons.IH)
qed

lemma session_phase_cases:
  assumes "session_phase df_full i a = Inr b"
  obtains (same) "b = a"
  | (reset) oh ol where
      "b = a\<lparr>orb_high := oh, orb_low := ol, risk_mgr := reset_daily (risk_mgr a)\<rparr>"
proof (cases "iloc df_full i")
  case (Inl e)
  then show ?thesis using assms by (simp add: session_phase_def)
next
  case (Inr row)
  show ?thesis
  proof (cases "i mod 78 = 0")
    case False
    then have "b = a" using assms Inr by (simp add: session_phase_def)
    then show ?thesis by (rule same)
  next
    case True
    show ?thesis
    proof (cases "2 \<le> length (iloc_slice df_full i (i + 3))")
      case True
      have "b = a\<lparr>orb_high := Some (list_max (map high (iloc_slice df_full i (i + 3)))),
                  orb_low := Some (list_min (map low (iloc_slice df_full i (i + 3)))),
                  risk_mgr := reset_daily (risk_mgr a)\<rparr>"
        using assms Inr \<open>i mod 78 = 0\<close> True by (simp add: session_phase_def Let_def)
      then show ?thesis by (rule reset)
    next
      case False
      have "b = a\<lparr>orb_high := orb_high a, orb_low := orb_low a,
                  risk_mgr := reset_daily (risk_mgr a)\<rparr>"
        using assms Inr \<open>i mod 78 = 0\<close> False by (simp add: session_phase_def Let_def)
      then show ?thesis by (rule reset)
    qed
  qed
qed

lemma exit_phase_cases:
  assumes "exit_phase df_full i a = Inr b"
  obtains (idle) "current_trade a = None" "b = a"
  | (hold) ct row where "current_trade a = Some ct" "iloc df_full i = Inr row"
      "fst (check_exit_conditions (ct_id ct) (high row) (low row) (close row) (risk_mgr a)) = None"
      "b = a\<lparr>risk_mgr :=
             snd (check_exit_conditions (ct_id ct) (high row) (low row) (close row) (risk_mgr a))\<rparr>"
  | (exit) ct row price why r where "current_trade a = Some ct" "iloc df_full i = Inr row"
      "fst (check_exit_conditions (ct_id ct) (high row) (low row) (close row) (risk_mgr a))
         = Some (price, why)"
      "fst (process_exit (ct_id ct) price why
         (snd (check_exit_conditions (ct_id ct) (high row) (low row) (close row) (risk_mgr a))))
         = Some r"
      "b = a\<lparr>risk_mgr := snd (process_exit (ct_id ct) price why
                 (snd (check_exit_conditions (ct_id ct) (high row) (low row) (close row)
                    (risk_mgr a)))),
            account := account a + net_pnl r,
            loop_trades := loop_trades a @ [close_trade ct price why r i],
            current_trade := None\<rparr>"
proof (cases "current_trade a")
  case None
  then have "b = a" using assms by (simp add: exit_phase_def)
  with None show ?thesis by (rule idle)
next
  case (Some ct)
  show ?thesis
  proof (cases "iloc df_full i")
    case (Inl e)
    then show ?thesis using assms Some by (simp add: exit_phase_def)
  next
    case (Inr row)
    obtain ec rm1 where c: "check_exit_conditions (ct_id ct) (high row) (low row) (close row)
        (risk_mgr a) = (ec, rm1)"
      by (rule prod.exhaust)
    show ?thesis
    proof (cases ec)
      case None
      have "b = a\<lparr>risk_mgr := rm1\<rparr>"
        using assms by (simp add: exit_phase_def Some Inr c None)
      then show ?thesis using hold [OF Some Inr] c None by simp
    next
      case ec: (Some x)
      obtain price why where x: "x = (price, why)" by (rule prod.exhaust)
      obtain er rm2 where pe: "process_exit (ct_id ct) price why rm1 = (er, rm2)"
        by (rule prod.exhaust)
      show ?thesis
      proof (cases er)
        case None
        then show ?thesis using assms by (simp add: exit_phase_def Some Inr c ec x pe)
      next
        case r: (Some r)
        have "b = a\<lparr>risk_mgr := rm2, account := account a + net_pnl r,
            loop_trades := loop_trades a @ [close_trade ct price why r i],
            current_trade := None\<rparr>"
          using assms by (simp add: exit_phase_def Some Inr c ec x pe r)
        then show ?thesis using exit [OF Some Inr, of price why r] c ec x pe r by simp
      qed
    qed
  qed
qed


lemma entry_phase_cases:
  assumes "entry_phase eng cfg df_full test_start i a = Inr b"
  obtains (held) "b = a"
  | (checked) "b = a\<lparr>risk_mgr := snd (can_trade (risk_mgr a))\<rparr>"
  | (filtered) "b = count_filtered (count_generated (a\<lparr>risk_mgr := snd (can_trade (risk_mgr a))\<rparr>))"
  | (entered) sg qty where "current_trade a = None" "fst (fst (can_trade (risk_mgr a)))"
      "b = enter_trade cfg sg qty i (count_generated (a\<lparr>risk_mgr := snd (can_trade (risk_mgr a))\<rparr>))"
proof (cases "current_trade a")
  case (Some ct)
  then have "b = a" using assms by (simp add: entry_phase_def)
  then show ?thesis by (rule held)
next
  case None
  obtain allowed why rm1 where c: "can_trade (risk_mgr a) = ((allowed, why), rm1)"
    by (metis prod.exhaust)
  let ?a1 = "a\<lparr>risk_mgr := rm1\<rparr>"
  have rm1: "snd (can_trade (risk_mgr a)) = rm1" and al: "fst (fst (can_trade (risk_mgr a))) = allowed"
    using c by simp_all
  show ?thesis
  proof (cases "allowed \<and> test_start + 3 < i")
    case False
    then have "b = ?a1" using assms None c
      by (cases allowed; cases "test_start + 3 < i") (simp_all add: entry_phase_def Let_def)
    then show ?thesis using checked rm1 by simp
  next
    case True
    show ?thesis
    proof (cases "choose_signal eng cfg df_full (orb_high ?a1) (orb_low ?a1) i")
      case no: None
      have "b = ?a1" using assms None c True no by (simp add: entry_phase_def Let_def)
      then show ?thesis using checked rm1 by simp
    next
      case sg: (Some sg)
      show ?thesis
      proof (cases "signal sg = FLAT")
        case True
        have "b = ?a1" using assms None c \<open>allowed \<and> test_start + 3 < i\<close> sg True
          by (simp add: entry_phase_def Let_def)
        then show ?thesis using checked rm1 by simp
      next
        case False
        let ?a2 = "count_generated ?a1"
        let ?qty = "calculate_position_size (risk_mgr ?a2) \<bar>sig_entry_price sg - sig_stop_loss sg\<bar>"
        show ?thesis
        proof (cases "0 < ?qty")
          case small: False
          have "b = count_filtered ?a2"
            using assms None c \<open>allowed \<and> test_start + 3 < i\<close> sg False small
            by (simp add: entry_phase_def Let_def)
          then show ?thesis using filtered rm1 by simp
        next
          case pos: True
          show ?thesis
          proof (cases "1 / 2 \<le> confidence sg")
            case True
            have "b = enter_trade cfg sg ?qty i ?a2"
              using assms None c \<open>allowed \<and> test_start + 3 < i\<close> sg False pos True
              by (simp add: entry_phase_def Let_def)
            then show ?thesis
              using entered [OF None, of sg ?qty] al rm1 \<open>allowed \<and> test_start + 3 < i\<close>
              by simp
          next
            case unsure: False
            have "b = count_filtered ?a2"
              using assms None c \<open>allowed \<and> test_start + 3 < i\<close> sg False pos unsure
              by (simp add: entry_phase_def Let_def)
            then show ?thesis using filtered rm1 by simp
          qed
        qed
      qed
    qed
  qed
qed

lemma final_close_cases:
  assumes "final_close df_full a = Inr b"
  obtains (flat) "current_trade a = None" "b = a"
  | (closed) ct row r where "current_trade a = Some ct" "iloc df_full (- 1) = Inr row"
      "fst (process_exit (ct_id ct) (close row) ''Session End'' (risk_mgr a)) = Some r"
      "b = a\<lparr>risk_mgr := snd (process_exit (ct_id ct) (close row) ''Session End'' (risk_mgr a)),
            account := account a + net_pnl r,
            loop_trades := loop_trades a @
              [close_trade ct (close row) ''Session End'' r (int (length df_full) - 1)],
            equity := equity a @ [account a + net_pnl r]\<rparr>"
proof (cases "current_trade a")
  case None
  then have "b = a" using assms by (simp add: final_close_def)
  with None show ?thesis by (rule flat)
next
  case (Some ct)
  show ?thesis
  proof (cases "iloc df_full (- 1)")
    case (Inl e)
    then show ?thesis using assms Some by (simp add: final_close_def)
  next
    case (Inr row)
    obtain er rm2 where pe: "process_exit (ct_id ct) (close row) ''Session End'' (risk_mgr a) = (er, rm2)"
      by (rule prod.exhaust)
    show ?thesis
    proof (cases er)
      case None
      then show ?thesis using assms by (simp add: final_close_def Some Inr pe)
    next
      case r: (Some r)
      have "b = a\<lparr>risk_mgr := rm2, account := account a + net_pnl r,
            loop_trades := loop_trades a @
              [close_trade ct (close row) ''Session End'' r (int (length df_full) - 1)],
            equity := equity a @ [account a + net_pnl r]\<rparr>"
        using assms by (simp add: final_close_def Some Inr pe r Let_def)
      then show ?thesis using closed [OF Some Inr, of r] pe r by simp
    qed
  qed
qed


section \<open>The example run\<close>

lemma example_frame:
  "compute_indicators example_engine example_df default_config = example_full"
  by (simp add: example_engine_def example_indicators_def example_df_def example_full_def
        rich_bar_def flat_bar_def)

lemma example_test_start: "test_start_of example_df default_config True (7 / 8) = 61"
  by (simp add: test_start_of_def py_int_def example_df_def)

lemma example_range: "bar_range 61 example_full = [61, 62, 63, 64, 65, 66, 67, 68, 69]"
  by (simp add: bar_range_def example_full_def upto_rec_numeral)

lemma example_row: "0 \<le> i \<Longrightarrow> i < 70 \<Longrightarrow> iloc example_full i = Inr rich_bar"
  by (simp add: iloc_def example_full_def)

lemma example_last_row: "iloc example_full (- 1) = Inr rich_bar"
  by (simp add: iloc_def example_full_def)

lemma rich_bar_prices: "high rich_bar = 21510" "low rich_bar = 21490" "close rich_bar = 21500"
  by (simp_all add: rich_bar_def flat_bar_def Bar.extend_def)

lemma default_fields:
  "account_size default_config = 25000"
  "risk_per_trade_pct default_config = 1 / 400"
  "max_daily_loss_pct default_config = 1 / 50"
  "trend_ema_period default_config = 50"
  "trailing_stop_pct default_config = 1 / 2"
  "max_trades_per_session default_config = 6"
  "strategy_mode default_config = ''hybrid1''"
  "slippage_pct default_config = 1 / 1000"
  "commission_per_contract default_config = 31 / 50"
  by (simp_all add: default_config_def)

lemma example_start: "initial_state default_config = example_flat 0"
  by (simp add: example_flat_def initial_state_def default_fields)

lemma example_session:
  "61 \<le> i \<Longrightarrow> i \<le> 69 \<Longrightarrow> session_phase example_full i st = Inr st"
  by (simp add: session_phase_def example_row)

lemma example_exit_flat: "exit_phase example_full i (example_flat n) = Inr (example_flat n)"
  by (simp add: exit_phase_def example_flat_def initial_state_def)

lemma can_trade_fresh:
  "can_trade (init default_config) = ((True, OK), init default_config)"
  by (simp add: can_trade_def init_def default_fields max_loss_def len_positions_def fcard_fempty)

lemma example_entry_wait:
  "i \<le> 64 \<Longrightarrow>
   entry_phase example_engine default_config example_full 61 i (example_flat n)
     = Inr (example_flat n)"
  by (simp add: entry_phase_def example_flat_def initial_state_def can_trade_fresh)

lemma example_size: "calculate_position_size (init default_config) 25 = 1"
  by (simp add: calculate_position_size_def init_def default_fields MNQ_POINT_VALUE_def
        py_int_def Let_def)

lemma example_entry:
  "entry_phase example_engine default_config example_full 61 65 (example_flat n)
     = Inr (example_holding n)"
  by (simp add: entry_phase_def example_flat_def example_holding_def initial_state_def
        can_trade_fresh choose_signal_def example_engine_def example_signal_def
        count_generated_def example_size enter_trade_def Let_def new_result_def
        example_open_trade_def example_rm_def round2_def py_round_def default_fields)

lemma example_check:
  "check_exit_conditions 1 21510 21490 21500 example_rm = (None, example_rm)"
  by (simp add: check_exit_conditions_def update_trailing_stop_def set_position_def Let_def
        example_rm_def process_entry_def init_def)

lemma example_exit_hold:
  "0 \<le> i \<Longrightarrow> i < 70 \<Longrightarrow>
   exit_phase example_full i (example_holding n) = Inr (example_holding n)"
  by (simp add: exit_phase_def example_holding_def initial_state_def example_row
        example_open_trade_def rich_bar_prices example_check)

lemma example_entry_hold:
  "entry_phase example_engine default_config example_full 61 i (example_holding n)
     = Inr (example_holding n)"
  by (simp add: entry_phase_def example_holding_def initial_state_def)

lemma example_equity:
  "equity_phase i (example_flat n) = Inr (example_flat (n + 1))"
  "equity_phase i (example_holding n) = Inr (example_holding (n + 1))"
  by (simp_all add: equity_phase_def example_flat_def example_holding_def initial_state_def
        default_fields replicate_append_same)

lemma example_process_exit:
  "process_exit 1 21500 ''Session End'' example_rm = (Some example_exit_record, example_rm_closed)"
  by (simp add: process_exit_def example_rm_def process_entry_def init_def default_fields
        max_loss_def MNQ_POINT_VALUE_def Let_def round2_def py_round_def
        example_exit_record_def example_rm_closed_def fmdrop_fmupd_same)

lemma example_length: "length example_full = 70" "length example_df = 70"
  by (simp_all add: example_full_def example_df_def)

lemma example_ids: "ct_id example_open_trade = 1" "net_pnl example_exit_record = - 87.24"
  by (simp_all add: example_open_trade_def example_exit_record_def)

lemma example_final_close:
  "final_close example_full (example_holding n) = Inr (example_closed n)"
  by (simp add: final_close_def example_holding_def example_closed_def initial_state_def
        example_last_row rich_bar_prices example_ids example_process_exit
        example_trade_def example_length default_fields Let_def)

lemma example_trade_fields:
  "pnl example_trade = - 87.24" "tr_exit_reason example_trade = ''Session End''"
  by (simp_all add: example_trade_def close_trade_def example_exit_record_def
        open_trade.extend_def trade_record.fields_def)

lemma example_metrics:
  "compute_metrics example_df default_config True 61 (example_closed n) =
     Inr (Computed
        \<lparr>total_trades = 1, winning_trades = 0, losing_trades = 1, win_rate = 0, avg_rr = 0,
         total_net_pnl = - 87.24, final_balance = 24912.76, walk_forward_used = True\<rparr>)"
  by (simp add: compute_metrics_def example_closed_def example_df_def iloc_def
        example_trade_fields calculate_win_rate_def calculate_avg_rr_def mean_def
        default_fields round2_def py_round_def Let_def)

lemma example_steps:
  "backtest_steps example_engine example_df default_config True (7 / 8) =
     loop_steps example_engine default_config example_full 61 @ [final_close example_full]"
  by (simp add: backtest_steps_def example_frame example_test_start)

lemmas example_phases = example_session example_exit_flat example_entry_wait example_entry
  example_exit_hold example_entry_hold example_equity

lemma example_loop:
  "run_steps (loop_steps example_engine default_config example_full 61)
     (initial_state default_config) = Inr (example_holding 9)"
proof -
  have n: "Suc (Suc (Suc (Suc (Suc (Suc (Suc (Suc (Suc 0)))))))) = (9::nat)" by simp
  show ?thesis
    unfolding n [symmetric]
    by (simp add: loop_steps_def example_range bar_steps_def example_start example_phases)
qed

lemma example_prefix:
  "run_steps (take 20 (backtest_steps example_engine example_df default_config True (7 / 8)))
     (initial_state default_config) = Inr (example_holding 5)"
proof -
  have n: "Suc (Suc (Suc (Suc (Suc 0)))) = (5::nat)" by simp
  show ?thesis
    unfolding n [symmetric]
    by (simp add: example_steps loop_steps_def example_range bar_steps_def example_start
          example_phases)
qed

lemma example_all_steps:
  "run_steps (backtest_steps example_engine example_df default_config True (7 / 8))
     (initial_state default_config) = Inr (example_closed 9)"
  by (simp add: example_steps run_steps_append example_loop example_final_close)

lemma example_closed_fields:
  "loop_trades (example_closed n) = [example_trade]"
  "equity (example_closed n) = replicate (Suc n) 25000 @ [24912.76]"
  "result (example_closed n) = new_result\<lparr>signals_generated := 1\<rparr>"
  by (simp_all add: example_closed_def example_holding_def initial_state_def)

lemma example_run:
  "run_backtest example_engine example_df default_config True (7 / 8) = Inr example_result"
proof -
  have n: "Suc 9 = 10" by simp
  show ?thesis
    by (simp add: run_backtest_def example_all_steps example_test_start example_metrics
          example_length default_fields example_closed_fields example_result_def
          new_result_def n del: replicate_Suc)
qed

section \<open>One position at a time\<close>

lemma set_position_dom:
  "tid |\<in>| fmdom (open_positions s) \<Longrightarrow>
   fmdom (open_positions (set_position tid pos s)) = fmdom (open_positions s)"
  by (auto simp add: set_position_def)

lemma update_trailing_stop_dom:
  "fmdom (open_positions (snd (update_trailing_stop tid p s))) = fmdom (open_positions s)"
proof (cases "fmlookup (open_positions s) tid")
  case None
  then show ?thesis by (simp add: update_trailing_stop_def)
next
  case (Some pos)
  then have "tid |\<in>| fmdom (open_positions s)" by (simp add: fmlookup_dom_iff)
  then show ?thesis using Some
    by (simp add: update_trailing_stop_def Let_def set_position_dom)
qed

lemma check_exit_conditions_dom:
  "fmdom (open_positions (snd (check_exit_conditions tid h l c s))) = fmdom (open_positions s)"
proof (cases "fmlookup (open_positions s) tid")
  case None
  then show ?thesis by (simp add: check_exit_conditions_def)
next
  case (Some pos)
  then show ?thesis
    by (simp add: check_exit_conditions_def Let_def update_trailing_stop_dom)
qed

lemma process_exit_dom:
  "fmdom (open_positions (snd (process_exit tid price why s))) |\<subseteq>| fmdom (open_positions s)"
proof (cases "fmlookup (open_positions s) tid")
  case None
  then show ?thesis by (simp add: process_exit_def)
next
  case (Some pos)
  have "fmdom (open_positions s) |-| {|tid|} |\<subseteq>| fmdom (open_positions s)" by auto
  then show ?thesis using Some
    by (simp add: process_exit_def Let_def)
qed

lemma len_positions_mono:
  "fmdom (open_positions s') |\<subseteq>| fmdom (open_positions s) \<Longrightarrow> len_positions s' \<le> len_positions s"
  by (simp add: len_positions_def fcard_mono)

lemma can_trade_allowed: "fst (fst (can_trade s)) \<Longrightarrow> len_positions s = 0"
  by (simp add: can_trade_def split: if_splits)

lemma can_trade_positions: "open_positions (snd (can_trade s)) = open_positions s"
  by (simp add: can_trade_def)

lemma session_phase_one_position:
  assumes "one_position a" "session_phase df_full i a = Inr b"
  shows "one_position b"
  using assms(2)
proof (cases rule: session_phase_cases)
  case same
  then show ?thesis using assms(1) by simp
next
  case (reset oh ol)
  then show ?thesis using assms(1)
    by (simp add: one_position_def len_positions_def reset_daily_def)
qed

lemma exit_phase_one_position:
  assumes "one_position a" "exit_phase df_full i a = Inr b"
  shows "one_position b"
  using assms(2)
proof (cases rule: exit_phase_cases)
  case idle
  then show ?thesis using assms(1) by simp
next
  case (hold ct row)
  then show ?thesis using assms(1)
    by (simp add: one_position_def len_positions_def check_exit_conditions_dom)
next
  case (exit ct row price why r)
  let ?c = "snd (check_exit_conditions (ct_id ct) (high row) (low row) (close row) (risk_mgr a))"
  have "len_positions (snd (process_exit (ct_id ct) price why ?c)) \<le> len_positions ?c"
    by (intro len_positions_mono process_exit_dom)
  also have "len_positions ?c = len_positions (risk_mgr a)"
    by (simp add: len_positions_def check_exit_conditions_dom)
  finally show ?thesis using assms(1) exit(5) by (simp add: one_position_def)
qed

lemma entry_phase_one_position:
  assumes "one_position a" "entry_phase eng cfg df_full test_start i a = Inr b"
  shows "one_position b"
  using assms(2)
proof (cases rule: entry_phase_cases)
  case held
  then show ?thesis using assms(1) by simp
next
  case checked
  then show ?thesis using assms(1)
    by (simp add: one_position_def len_positions_def can_trade_positions)
next
  case filtered
  then show ?thesis using assms(1)
    by (simp add: one_position_def len_positions_def can_trade_positions count_filtered_def
          count_generated_def)
next
  case (entered sg qty)
  have "len_positions (risk_mgr a) = 0" using entered(2) by (rule can_trade_allowed)
  then have "fmdom (open_positions (risk_mgr a)) = {||}" by (simp add: len_positions_def)
  then show ?thesis using entered(3)
    by (simp add: one_position_def len_positions_def can_trade_positions count_generated_def
          enter_trade_def Let_def process_entry_def fcard_finsert_if fcard_fempty)
qed

lemma equity_phase_one_position:
  "one_position a \<Longrightarrow> equity_phase i a = Inr b \<Longrightarrow> one_position b"
  by (auto simp add: equity_phase_def one_position_def)

lemma final_close_one_position:
  assumes "one_position a" "final_close df_full a = Inr b"
  shows "one_position b"
  using assms(2)
proof (cases rule: final_close_cases)
  case flat
  then show ?thesis using assms(1) by simp
next
  case (closed ct row r)
  have "len_positions (snd (process_exit (ct_id ct) (close row) ''Session End'' (risk_mgr a)))
          \<le> len_positions (risk_mgr a)"
    by (intro len_positions_mono process_exit_dom)
  then show ?thesis using assms(1) closed(4) by (simp add: one_position_def)
qed

lemma backtest_steps_one_position:
  assumes "f \<in> set (backtest_steps eng df cfg walk_forward in_sample_pct)"
    and "one_position a" and "f a = Inr b"
  shows "one_position b"
proof -
  let ?df = "compute_indicators eng df cfg"
  let ?ts = "test_start_of df cfg walk_forward in_sample_pct"
  from assms(1) consider i where "f \<in> set (bar_steps eng cfg ?df ?ts i)" | "f = final_close ?df"
    by (auto simp add: backtest_steps_def loop_steps_def Let_def)
  then show ?thesis
  proof cases
    case 1
    then consider "f = session_phase ?df i" | "f = exit_phase ?df i"
      | "f = entry_phase eng cfg ?df ?ts i" | "f = equity_phase i"
      by (auto simp add: bar_steps_def)
    then show ?thesis
    proof cases
      case 1
      then show ?thesis using assms(2,3) session_phase_one_position by blast
    next
      case 2
      then show ?thesis using assms(2,3) exit_phase_one_position by blast
    next
      case 3
      then show ?thesis using assms(2,3) entry_phase_one_position by blast
    next
      case 4
      then show ?thesis using assms(2,3) equity_phase_one_position by blast
    qed
  next
    case 2
    then show ?thesis using assms(2,3) final_close_one_position by blast
  qed
qed

text \<open>
  C1. At every point of a backtest the risk manager holds at most one open position:
  after any number \<open>k\<close> of the steps that \<^verbatim>\<open>run_backtest\<close> takes (the four parts
  of the loop body for each bar in turn, then the closing of the last position), whatever
  the bars, the configuration, the strategy engine and the walk-forward arguments are,
  the map of open positions has at most one entry.
\<close>

theorem at_most_one_open_position:
  assumes "run_steps (take k (backtest_steps eng df cfg walk_forward in_sample_pct))
             (initial_state cfg) = Inr st"
  shows "len_positions (risk_mgr st) \<le> 1"
proof -
  have start: "one_position (initial_state cfg)"
    by (simp add: one_position_def initial_state_def init_def len_positions_def fcard_fempty)
  have step: "\<forall>f\<in>set (take k (backtest_steps eng df cfg walk_forward in_sample_pct)).
                \<forall>a b. one_position a \<longrightarrow> f a = Inr b \<longrightarrow> one_position b"
    by (meson in_set_takeD backtest_steps_one_position)
  have "one_position st"
    using step start assms by (rule run_steps_invariant)
  then show ?thesis by (simp add: one_position_def)
qed

theorem at_most_one_open_position_witness:
  "run_steps (take 20 (backtest_steps example_engine example_df default_config True (7 / 8)))
     (initial_state default_config) = Inr (example_holding 5)
   \<and> len_positions (risk_mgr (example_holding 5)) \<le> 1
   \<and> fmlookup (open_positions (risk_mgr (example_holding 5))) 1 \<noteq> None"
proof -
  have "len_positions (risk_mgr (example_holding 5)) \<le> 1"
    by (rule at_most_one_open_position [OF example_prefix])
  moreover have "fmlookup (open_positions (risk_mgr (example_holding 5))) 1 \<noteq> None"
    by (simp add: example_holding_def example_rm_def process_entry_def)
  ultimately show ?thesis using example_prefix by simp
qed

section \<open>Equity curve\<close>

lemma run_steps_Cons_Inr:
  "run_steps (f # fs) a = Inr b \<longleftrightarrow> (\<exists>a1. f a = Inr a1 \<and> run_steps fs a1 = Inr b)"
  by (cases "f a") simp_all

lemma check_exit_conditions_reason:
  assumes "fst (check_exit_conditions tid h l c s) = Some (price, why)"
  shows "why = ''Stop Loss'' \<or> why = ''Take Profit''"
proof (cases "fmlookup (open_positions s) tid")
  case None
  then show ?thesis using assms by (simp add: check_exit_conditions_def)
next
  case (Some pos)
  then show ?thesis using assms
    by (simp add: check_exit_conditions_def Let_def split: if_splits)
qed

lemma close_trade_reason: "tr_exit_reason (close_trade ct price why r bar) = why"
  by (simp add: close_trade_def open_trade.extend_def trade_record.fields_def)

lemma session_phase_equity:
  assumes "session_phase df_full i a = Inr b"
  shows "equity b = equity a \<and> loop_trades b = loop_trades a"
  using assms by (cases rule: session_phase_cases) simp_all

lemma exit_phase_equity:
  assumes "exit_phase df_full i a = Inr b"
  shows "equity b = equity a \<and> (in_loop a \<longrightarrow> in_loop b)"
  using assms
proof (cases rule: exit_phase_cases)
  case idle
  then show ?thesis by simp
next
  case (hold ct row)
  then show ?thesis by (simp add: in_loop_def)
next
  case (exit ct row price why r)
  have "why \<noteq> ''Session End''"
    using check_exit_conditions_reason [OF exit(3)] by auto
  then show ?thesis using exit(5) by (simp add: in_loop_def close_trade_reason)
qed

lemma entry_phase_equity:
  assumes "entry_phase eng cfg df_full test_start i a = Inr b"
  shows "equity b = equity a \<and> loop_trades b = loop_trades a"
  using assms
  by (cases rule: entry_phase_cases)
     (simp_all add: count_filtered_def count_generated_def enter_trade_def Let_def)

lemma bar_steps_equity:
  assumes "run_steps (bar_steps eng cfg df_full test_start i) a = Inr b"
  shows "length (equity b) = Suc (length (equity a)) \<and> (in_loop a \<longrightarrow> in_loop b)"
proof -
  from assms obtain a1 a2 a3 where
    s1: "session_phase df_full i a = Inr a1" and
    s2: "exit_phase df_full i a1 = Inr a2" and
    s3: "entry_phase eng cfg df_full test_start i a2 = Inr a3" and
    s4: "equity_phase i a3 = Inr b"
    unfolding bar_steps_def run_steps_Cons_Inr by auto
  have e1: "equity a1 = equity a" "loop_trades a1 = loop_trades a"
    using session_phase_equity [OF s1] by simp_all
  have e2: "equity a2 = equity a1" "in_loop a1 \<longrightarrow> in_loop a2"
    using exit_phase_equity [OF s2] by simp_all
  have e3: "equity a3 = equity a2" "loop_trades a3 = loop_trades a2"
    using entry_phase_equity [OF s3] by simp_all
  have e4: "equity b = equity a3 @ [account a3]" "loop_trades b = loop_trades a3"
    using s4 by (auto simp add: equity_phase_def)
  have "in_loop a \<longrightarrow> in_loop b"
    using e1(2) e2(2) e3(2) e4(2) by (simp add: in_loop_def)
  then show ?thesis using e1(1) e2(1) e3(1) e4(1) by simp
qed

lemma loop_equity:
  assumes "run_steps (concat (map (bar_steps eng cfg df_full test_start) is)) a = Inr b"
  shows "length (equity b) = length (equity a) + length is \<and> (in_loop a \<longrightarrow> in_loop b)"
  using assms
proof (induction "is" arbitrary: a)
  case Nil
  then show ?case by simp
next
  case (Cons i "is")
  from Cons.prems obtain a1 where
    bar: "run_steps (bar_steps eng cfg df_full test_start i) a = Inr a1" and
    rest: "run_steps (concat (map (bar_steps eng cfg df_full test_start) is)) a1 = Inr b"
    by (auto simp add: run_steps_append split: sum.splits)
  show ?case using bar_steps_equity [OF bar] Cons.IH [OF rest] by simp
qed

lemma close_trade_pnl: "pnl (close_trade ct price why r bar) = net_pnl r"
  by (simp add: close_trade_def open_trade.extend_def trade_record.fields_def)

lemma session_phase_account:
  assumes "session_phase df_full i a = Inr b"
  shows "account b = account a"
  using assms by (cases rule: session_phase_cases) simp_all

lemma entry_phase_account:
  assumes "entry_phase eng cfg df_full test_start i a = Inr b"
  shows "account b = account a"
  using assms
  by (cases rule: entry_phase_cases)
     (simp_all add: count_filtered_def count_generated_def enter_trade_def Let_def)

lemma exit_phase_balanced:
  assumes "exit_phase df_full i a = Inr b" "balanced start a"
  shows "balanced start b"
  using assms(1)
proof (cases rule: exit_phase_cases)
  case idle
  then show ?thesis using assms(2) by simp
next
  case (hold ct row)
  then show ?thesis using assms(2) by (simp add: balanced_def)
next
  case (exit ct row price why r)
  then show ?thesis using assms(2) by (simp add: balanced_def close_trade_pnl)
qed

lemma exit_phase_trades:
  assumes "exit_phase df_full i a = Inr b"
  shows "\<exists>ts. loop_trades b = loop_trades a @ ts"
  using assms by (cases rule: exit_phase_cases) simp_all

lemma bar_steps_sample:
  assumes "run_steps (bar_steps eng cfg df_full test_start i) a = Inr b"
  shows "equity b = equity a @ [account b]
         \<and> (\<exists>ts. loop_trades b = loop_trades a @ ts)
         \<and> (balanced start a \<longrightarrow> balanced start b)"
proof -
  from assms obtain a1 a2 a3 where
    s1: "session_phase df_full i a = Inr a1" and
    s2: "exit_phase df_full i a1 = Inr a2" and
    s3: "entry_phase eng cfg df_full test_start i a2 = Inr a3" and
    s4: "equity_phase i a3 = Inr b"
    unfolding bar_steps_def run_steps_Cons_Inr by auto
  have e1: "equity a1 = equity a" "loop_trades a1 = loop_trades a" "account a1 = account a"
    using session_phase_equity [OF s1] session_phase_account [OF s1] by simp_all
  have e2: "equity a2 = equity a1" "balanced start a1 \<longrightarrow> balanced start a2"
    using exit_phase_equity [OF s2] exit_phase_balanced [OF s2] by auto
  have e3: "equity a3 = equity a2" "loop_trades a3 = loop_trades a2" "account a3 = account a2"
    using entry_phase_equity [OF s3] entry_phase_account [OF s3] by simp_all
  have e4: "equity b = equity a3 @ [account a3]" "loop_trades b = loop_trades a3"
    "account b = account a3"
    using s4 by (auto simp add: equity_phase_def)
  have "balanced start a \<longrightarrow> balanced start b"
    using e1(2,3) e2(2) e3(2,3) e4(2,3) by (simp add: balanced_def)
  moreover have "\<exists>ts. loop_trades b = loop_trades a @ ts"
    using exit_phase_trades [OF s2] e1(2) e3(2) e4(2) by simp
  ultimately show ?thesis using e1(1) e2(1) e3(1) e4(1,3) by simp
qed

lemma loop_samples:
  assumes "run_steps (concat (map (bar_steps eng cfg df_full test_start) is)) a = Inr b"
  shows "(\<exists>xs. equity b = equity a @ xs)
         \<and> (\<exists>ts. loop_trades b = loop_trades a @ ts)
         \<and> (is \<noteq> [] \<longrightarrow> last (equity b) = account b)
         \<and> (balanced start a \<longrightarrow> balanced start b)"
  using assms
proof (induction "is" arbitrary: a)
  case Nil
  then show ?case by simp
next
  case (Cons i "is")
  from Cons.prems obtain a1 where
    bar: "run_steps (bar_steps eng cfg df_full test_start i) a = Inr a1" and
    rest: "run_steps (concat (map (bar_steps eng cfg df_full test_start) is)) a1 = Inr b"
    by (auto simp add: run_steps_append split: sum.splits)
  from bar_steps_sample [OF bar, of start] obtain ts1 where
    b1: "equity a1 = equity a @ [account a1]" "balanced start a \<longrightarrow> balanced start a1"
      "loop_trades a1 = loop_trades a @ ts1"
    by blast
  from Cons.IH [OF rest] obtain xs ts2 where
    r: "equity b = equity a1 @ xs" "is \<noteq> [] \<longrightarrow> last (equity b) = account b"
      "balanced start a1 \<longrightarrow> balanced start b" "loop_trades b = loop_trades a1 @ ts2"
    by blast
  have last: "last (equity b) = account b"
  proof (cases "is = []")
    case True
    then have "b = a1" using rest by simp
    then show ?thesis using b1(1) by simp
  next
    case False
    then show ?thesis using r(2) by simp
  qed
  have "equity b = equity a @ ([account a1] @ xs)" using b1(1) r(1) by simp
  moreover have "loop_trades b = loop_trades a @ (ts1 @ ts2)" using b1(3) r(4) by simp
  ultimately show ?case using last b1(2) r(3) by blast
qed


lemma final_close_sample:
  assumes "final_close df_full a = Inr b"
  shows "(\<exists>xs. equity b = equity a @ xs)
         \<and> (\<exists>ts. loop_trades b = loop_trades a @ ts)
         \<and> (last (equity a) = account a \<longrightarrow> last (equity b) = account b)
         \<and> (balanced start a \<longrightarrow> balanced start b)"
  using assms
proof (cases rule: final_close_cases)
  case flat
  then show ?thesis by simp
next
  case (closed ct row r)
  then show ?thesis by (simp add: balanced_def close_trade_pnl)
qed

text \<open>
  C7, as stated, fails: in the example run the loop evaluates 9 bars and the equity curve
  has 11 samples, not 10, because the position that is still open after the last bar is
  closed after the loop and the balance is sampled once more.
\<close>

theorem equity_curve_has_closing_sample:
  "trend_ema_period default_config + 20 \<le> int (length example_df)
   \<and> run_backtest example_engine example_df default_config True (7 / 8) = Inr example_result
   \<and> length (bar_range (test_start_of example_df default_config True (7 / 8))
               (compute_indicators example_engine example_df default_config)) = 9
   \<and> length (equity_curve example_result) = 11"
  by (simp add: example_run example_length default_fields example_test_start example_frame
        example_range example_result_def)

text \<open>
  C7, amended. A backtest on sufficient data that returns gives an equity curve whose
  first sample is the starting balance and which has one further sample for each bar of
  the evaluation loop: the sample of the \<open>k\<close>-th bar is the account balance after
  that bar, which is the starting balance plus the P&L of the trades closed so far, the
  first trades of the returned ledger. When a position was still open after the last bar
  and was closed as ``Session End'', the curve has one more sample, for the balance after
  that closing; so its length is the number of bars plus one or plus two, and its last
  sample is always the starting balance plus the P&L of all trades of the ledger.
\<close>

theorem equity_curve_samples:
  assumes run: "run_backtest eng df cfg walk_forward in_sample_pct = Inr res"
    and enough: "trend_ema_period cfg + 20 \<le> int (length df)"
    and bars: "bars = bar_range (test_start_of df cfg walk_forward in_sample_pct)
                        (compute_indicators eng df cfg)"
  shows "length (equity_curve res) =
           length bars + 1
           + (if trades res \<noteq> [] \<and> tr_exit_reason (last (trades res)) = ''Session End''
              then 1 else 0)
         \<and> equity_curve res ! 0 = account_size cfg
         \<and> (0 < k \<and> k \<le> length bars \<longrightarrow>
              (\<exists>st later.
                 run_steps
                   (concat (map (bar_steps eng cfg (compute_indicators eng df cfg)
                                   (test_start_of df cfg walk_forward in_sample_pct))
                              (take k bars)))
                   (initial_state cfg) = Inr st
                 \<and> equity_curve res ! k = account st
                 \<and> account st = account_size cfg + sum_list (map pnl (loop_trades st))
                 \<and> trades res = loop_trades st @ later))
         \<and> last (equity_curve res) = account_size cfg + sum_list (map pnl (trades res))"
proof -
  let ?df = "compute_indicators eng df cfg"
  let ?ts = "test_start_of df cfg walk_forward in_sample_pct"
  let ?bs = "bar_steps eng cfg ?df ?ts"
  let ?s0 = "initial_state cfg"
  from run enough obtain fin m where
    steps: "run_steps (backtest_steps eng df cfg walk_forward in_sample_pct) ?s0 = Inr fin" and
    res: "res = (result fin)\<lparr>trades := loop_trades fin, equity_curve := equity fin, metrics := m\<rparr>"
    by (auto simp add: run_backtest_def split: sum.splits)
  from steps obtain a where
    loop: "run_steps (concat (map ?bs bars)) ?s0 = Inr a" and
    fin: "final_close ?df a = Inr fin"
    by (auto simp add: backtest_steps_def loop_steps_def bars Let_def run_steps_append
          split: sum.splits)
  have start: "equity ?s0 = [account_size cfg]" "account ?s0 = account_size cfg"
    "balanced (account_size cfg) ?s0" "in_loop ?s0"
    by (simp_all add: initial_state_def balanced_def in_loop_def)
  have len_a: "length (equity a) = length bars + 1" and loop_a: "in_loop a"
    using loop_equity [OF loop] start by simp_all
  from loop_samples [OF loop, of "account_size cfg"] start obtain xs where
    a: "equity a = [account_size cfg] @ xs" "bars \<noteq> [] \<longrightarrow> last (equity a) = account a"
      "balanced (account_size cfg) a"
    by auto
  have last_a: "last (equity a) = account a"
  proof (cases "bars = []")
    case True
    then have "a = ?s0" using loop by simp
    then show ?thesis using start by simp
  next
    case False
    then show ?thesis using a(2) by simp
  qed
  from final_close_sample [OF fin, of "account_size cfg"] a(3) last_a obtain ys ts where
    f: "equity fin = equity a @ ys" "last (equity fin) = account fin"
      "balanced (account_size cfg) fin" "loop_trades fin = loop_trades a @ ts"
    by auto
  have length: "length (equity_curve res) =
           length bars + 1
           + (if trades res \<noteq> [] \<and> tr_exit_reason (last (trades res)) = ''Session End''
              then 1 else 0)"
    using fin
  proof (cases rule: final_close_cases)
    case flat
    have "trades res \<noteq> [] \<longrightarrow> tr_exit_reason (last (trades res)) \<noteq> ''Session End''"
      using loop_a flat(2) res by (simp add: in_loop_def)
    then show ?thesis using len_a flat(2) res by auto
  next
    case (closed ct row r)
    then show ?thesis using len_a res by (simp add: close_trade_reason)
  qed
  have head: "equity_curve res ! 0 = account_size cfg"
    using res f(1) a(1) by simp
  have final: "last (equity_curve res) = account_size cfg + sum_list (map pnl (trades res))"
    using res f(2,3) by (simp add: balanced_def)
  have sample: "\<exists>st later.
                 run_steps (concat (map ?bs (take k bars))) ?s0 = Inr st
                 \<and> equity_curve res ! k = account st
                 \<and> account st = account_size cfg + sum_list (map pnl (loop_trades st))
                 \<and> trades res = loop_trades st @ later"
    if k: "0 < k" "k \<le> length bars"
  proof -
    have split: "concat (map ?bs bars)
                   = concat (map ?bs (take k bars)) @ concat (map ?bs (drop k bars))"
      by (metis append_take_drop_id concat_append map_append)
    from loop obtain st where
      pre: "run_steps (concat (map ?bs (take k bars))) ?s0 = Inr st" and
      rest: "run_steps (concat (map ?bs (drop k bars))) st = Inr a"
      unfolding split by (auto simp add: run_steps_append split: sum.splits)
    have nonempty: "take k bars \<noteq> []" using k by auto
    have len_st: "length (equity st) = k + 1"
      using loop_equity [OF pre] start(1) k(2) by simp
    from loop_samples [OF pre, of "account_size cfg"] start(3) nonempty
    have st: "last (equity st) = account st" "balanced (account_size cfg) st"
      by auto
    from loop_samples [OF rest, of "account_size cfg"] obtain zs us where
      grow: "equity a = equity st @ zs" "loop_trades a = loop_trades st @ us"
      by auto
    have "equity_curve res ! k = equity st ! k"
      using res f(1) grow(1) len_st by (simp add: nth_append)
    also have "\<dots> = last (equity st)"
    proof -
      have "equity st \<noteq> []" using len_st by auto
      then have "last (equity st) = equity st ! (length (equity st) - 1)"
        by (rule last_conv_nth)
      then show ?thesis using len_st by simp
    qed
    finally have "equity_curve res ! k = account st" using st(1) by simp
    moreover have "trades res = loop_trades st @ (us @ ts)"
      using res f(4) grow(2) by simp
    ultimately show ?thesis using pre st(2) by (auto simp add: balanced_def)
  qed
  show ?thesis using length head final sample by blast
qed

theorem equity_curve_samples_witness:
  "trend_ema_period default_config + 20 \<le> int (length example_df)
   \<and> run_backtest example_engine example_df default_config True (7 / 8) = Inr example_result
   \<and> length (equity_curve example_result) = 9 + 1 + 1
   \<and> equity_curve example_result ! 0 = 25000
   \<and> equity_curve example_result ! 9 = account (example_holding 9)
   \<and> account (example_holding 9) = 25000
   \<and> last (equity_curve example_result) = 25000 + (- 87.24)"
proof -
  let ?bars = "bar_range (test_start_of example_df default_config True (7 / 8))
                 (compute_indicators example_engine example_df default_config)"
  let ?bs = "bar_steps example_engine default_config
               (compute_indicators example_engine example_df default_config)
               (test_start_of example_df default_config True (7 / 8))"
  have enough: "trend_ema_period default_config + 20 \<le> int (length example_df)"
    by (simp add: example_length default_fields)
  have bars: "?bars = [61, 62, 63, 64, 65, 66, 67, 68, 69]"
    by (simp add: example_test_start example_frame example_range)
  have all: "take 9 ?bars = ?bars"
    by (simp add: bars)
  have session_end: "trades example_result \<noteq> []
      \<and> tr_exit_reason (last (trades example_result)) = ''Session End''"
    by (simp add: example_result_def example_trade_fields)
  have ledger: "sum_list (map pnl (trades example_result)) = - 87.24"
    by (simp add: example_result_def example_trade_fields)
  have loop: "run_steps (concat (map ?bs ?bars)) (initial_state default_config)
                = Inr (example_holding 9)"
    using example_loop by (simp add: loop_steps_def example_test_start example_frame)
  note facts = equity_curve_samples [OF example_run enough refl, of 9]
  have len: "length (equity_curve example_result) = 9 + 1 + 1"
    using facts session_end by (simp add: bars)
  have head: "equity_curve example_result ! 0 = 25000"
    using facts by (simp add: default_fields)
  have final: "last (equity_curve example_result) = 25000 + (- 87.24)"
    using facts ledger by (simp add: default_fields)
  have "\<exists>st later. run_steps (concat (map ?bs (take 9 ?bars))) (initial_state default_config)
            = Inr st \<and> equity_curve example_result ! 9 = account st
          \<and> account st = account_size default_config + sum_list (map pnl (loop_trades st))
          \<and> trades example_result = loop_trades st @ later"
    using facts by (simp add: bars)
  then obtain st where
    st: "run_steps (concat (map ?bs (take 9 ?bars))) (initial_state default_config) = Inr st"
      "equity_curve example_result ! 9 = account st"
    by blast
  have "st = example_holding 9" using st(1) loop by (simp only: all) simp
  then have sample: "equity_curve example_result ! 9 = account (example_holding 9)"
    using st(2) by simp
  have balance: "account (example_holding 9) = 25000"
    by (simp add: example_holding_def initial_state_def default_fields)
  show ?thesis using enough example_run len head sample balance final by simp
qed

end
